theory Spec2Isabelle
  imports Main
begin

section \<open>JavaScript values\<close>

text \<open>
  The values the three programs handle: what \<^verbatim>\<open>express.json()\<close> parses from a request
  body, what \<^verbatim>\<open>jwt.verify\<close> hands back as the decoded payload, and the object literals
  the handlers build. \<open>JUndefined\<close> is the value of an absent property.

  A number is kept as the text \<^verbatim>\<open>String(n)\<close> gives for it (\<open>''0''\<close> for both zeros,
  \<open>''NaN''\<close> for NaN): the programs only test numbers for truthiness and interpolate
  them into a message, they never compute with them. The properties of an object are an
  association list read with \<open>map_of\<close>. Strings are lists of bytes (UTF-8); the programs
  only compare strings, test them for emptiness, concatenate them and split them at the
  space character.
\<close>

datatype jsval =
    JUndefined
  | JNull
  | JBool bool
  | JNum string
  | JStr string
  | JArr "jsval list"
  | JObj "(string \<times> jsval) list"

text \<open>\<^verbatim>\<open>!v\<close> is \<open>\<not> truthy v\<close>.\<close>

fun truthy :: "jsval \<Rightarrow> bool" where
  "truthy JUndefined = False"
| "truthy JNull = False"
| "truthy (JBool b) = b"
| "truthy (JNum s) = (s \<noteq> ''0'' \<and> s \<noteq> ''NaN'')"
| "truthy (JStr s) = (s \<noteq> [])"
| "truthy (JArr xs) = True"
| "truthy (JObj ps) = True"

text \<open>\<^verbatim>\<open>v === undefined || v === null\<close>: reading a property of such a value throws.\<close>

fun nullish :: "jsval \<Rightarrow> bool" where
  "nullish JUndefined = True"
| "nullish JNull = True"
| "nullish v = False"

text \<open>
  \<^verbatim>\<open>v.k\<close> for a value that is not nullish and a key \<open>k\<close> among \<open>username\<close>, \<open>password\<close>,
  \<open>role\<close>, \<open>name\<close>, \<open>email\<close>: the own property of an object, \<open>undefined\<close> on a string, a
  number, a boolean or an array (none of these keys is a built-in property).
\<close>

fun get_prop :: "jsval \<Rightarrow> string \<Rightarrow> jsval" where
  "get_prop (JObj ps) k = (case map_of ps k of None \<Rightarrow> JUndefined | Some v \<Rightarrow> v)"
| "get_prop v k = JUndefined"

text \<open>
  \<^verbatim>\<open>a === b\<close>. In the programs one operand is always a string of the program text; an
  array or an object of a request is never the same reference as anything else.
\<close>

fun strict_eq :: "jsval \<Rightarrow> jsval \<Rightarrow> bool" where
  "strict_eq JUndefined JUndefined = True"
| "strict_eq JNull JNull = True"
| "strict_eq (JBool a) (JBool b) = (a = b)"
| "strict_eq (JNum a) (JNum b) = (a = b \<and> a \<noteq> ''NaN'')"
| "strict_eq (JStr a) (JStr b) = (a = b)"
| "strict_eq a b = False"

text \<open>\<^verbatim>\<open>xs.includes(v)\<close> for an array of strings \<open>xs\<close>.\<close>

definition js_includes :: "string list \<Rightarrow> jsval \<Rightarrow> bool" where
  "js_includes xs v = list_ex (\<lambda>x. strict_eq (JStr x) v) xs"

text \<open>\<^verbatim>\<open>xs.join(sep)\<close> for an array of strings.\<close>

fun js_join :: "string \<Rightarrow> string list \<Rightarrow> string" where
  "js_join sep [] = []"
| "js_join sep [x] = x"
| "js_join sep (x # y # ys) = x @ sep @ js_join sep (y # ys)"

text \<open>
  \<^verbatim>\<open>String(v)\<close>, the conversion a template literal applies; \<open>None\<close> is the \<open>TypeError\<close> it
  throws. An object converts through \<^verbatim>\<open>Object.prototype.toString\<close> unless it has an own
  property \<open>toString\<close>: a parsed value is never a function, so the conversion then falls
  back on \<^verbatim>\<open>valueOf\<close>, gets no primitive and throws. An array joins the conversions of its
  elements, the nullish ones as empty strings, and throws when an element does.
\<close>

fun all_some :: "'a option list \<Rightarrow> 'a list option" where
  "all_some [] = Some []"
| "all_some (None # xs) = None"
| "all_some (Some x # xs) = (case all_some xs of None \<Rightarrow> None | Some ys \<Rightarrow> Some (x # ys))"

fun to_string :: "jsval \<Rightarrow> string option" where
  "to_string JUndefined = Some ''undefined''"
| "to_string JNull = Some ''null''"
| "to_string (JBool b) = Some (if b then ''true'' else ''false'')"
| "to_string (JNum s) = Some s"
| "to_string (JStr s) = Some s"
| "to_string (JArr xs) =
     (case all_some (map (\<lambda>x. if nullish x then Some [] else to_string x) xs) of
        None \<Rightarrow> None
      | Some parts \<Rightarrow> Some (js_join '','' parts))"
| "to_string (JObj ps) = (if map_of ps ''toString'' = None then Some ''[object Object]'' else None)"

text \<open>
  \<^verbatim>\<open>s.split(sep)\<close> for a separator of one character: every occurrence of the separator
  ends a part, empty parts are kept, and the result is never empty.
\<close>

fun js_split :: "char \<Rightarrow> string \<Rightarrow> string list" where
  "js_split sep [] = [[]]"
| "js_split sep (c # cs) =
     (if c = sep then [] # js_split sep cs
      else (case js_split sep cs of [] \<Rightarrow> [[c]] | p # ps \<Rightarrow> (c # p) # ps))"

section \<open>The login form (\<^verbatim>\<open>App\<close>)\<close>

text \<open>
  The two pieces of state of the component, \<^verbatim>\<open>formData\<close> and \<^verbatim>\<open>error\<close>, and what a
  handler does besides setting them. Only the two inputs named \<open>username\<close> and \<open>password\<close>
  are wired to \<^verbatim>\<open>handleChange\<close>, so the computed key is one of the two fields.
\<close>

record form_data =
  username :: string
  password :: string

record app_state =
  formData :: form_data
  error :: string

datatype field = Username | Password

datatype effect =
    PreventDefault
  | ConsoleLog string string
  | Alert string

definition warning :: string where
  "warning = [CHR 0xE2, CHR 0x9A, CHR 0xA0, CHR 0xEF, CHR 0xB8, CHR 0x8F] @ '' Both fields are required!''"

fun handleChange :: "app_state \<Rightarrow> field \<Rightarrow> string \<Rightarrow> app_state" where
  "handleChange s Username v = s\<lparr>formData := (formData s)\<lparr>username := v\<rparr>\<rparr>"
| "handleChange s Password v = s\<lparr>formData := (formData s)\<lparr>password := v\<rparr>\<rparr>"

definition handleSubmit :: "app_state \<Rightarrow> app_state \<times> effect list" where
  "handleSubmit s =
     (if username (formData s) = [] \<or> password (formData s) = []
      then (s\<lparr>error := warning\<rparr>, [PreventDefault])
      else (s\<lparr>error := []\<rparr>,
            [PreventDefault,
             ConsoleLog ''Username:'' (username (formData s)),
             ConsoleLog ''Password:'' (password (formData s)),
             Alert (''Logged in as: '' @ username (formData s))]))"

section \<open>The two servers: what they share\<close>

text \<open>
  A request as the handlers read it: the value of the \<open>Authorization\<close> header
  (\<^verbatim>\<open>req.get("Authorization")\<close>, absent or a string) and \<^verbatim>\<open>req.body\<close> (\<open>JUndefined\<close> when
  no body was parsed). A response is the status and the value handed to \<^verbatim>\<open>res.json\<close>.
  A handler either sends a response or throws.
\<close>

record request =
  req_authorization :: "string option"
  req_body :: jsval

record response =
  status :: nat
  body :: jsval

datatype outcome = Sent response | Threw string

text \<open>
  The two functions of the \<open>jsonwebtoken\<close> package the servers call are parameters of the
  model, with the clock they read made an argument (seconds).
  \<^item> \<^verbatim>\<open>jwt.sign(payload, secret, { expiresIn })\<close> at time \<open>now\<close> is
    \<open>sign now payload secret expiresIn\<close>: \<open>Inr\<close> the token, \<open>Inl\<close> the message of the error it
    throws.
  \<^item> \<^verbatim>\<open>jwt.verify(token, secret, callback)\<close> at time \<open>now\<close> is \<open>verify now token secret\<close>:
    \<open>Failed\<close> is the callback called with an error, of that \<^verbatim>\<open>err.message\<close>; \<open>Decoded\<close> is
    the callback called with the decoded payload; \<open>Thrown\<close> is an exception that leaves
    \<^verbatim>\<open>jwt.verify\<close> itself, of that message, and the callback is not called.
\<close>

datatype verdict = Thrown string | Failed string | Decoded jsval

type_synonym jwt_sign = "nat \<Rightarrow> jsval \<Rightarrow> string \<Rightarrow> string \<Rightarrow> string + string"
type_synonym jwt_verify = "nat \<Rightarrow> string \<Rightarrow> string \<Rightarrow> verdict"

text \<open>The variables of \<^verbatim>\<open>process.env\<close> the servers read for signing and verifying.\<close>

record process_env =
  env_JWT_SECRET :: "string option"
  env_JWT_EXPIRES_IN :: "string option"

text \<open>\<^verbatim>\<open>process.env.X || fallback\<close>: an unset or empty variable gives the fallback.\<close>

definition or_default :: "string option \<Rightarrow> string \<Rightarrow> string" where
  "or_default v fallback = (case v of None \<Rightarrow> fallback | Some s \<Rightarrow> if s = [] then fallback else s)"

definition JWT_SECRET :: "process_env \<Rightarrow> string" where
  "JWT_SECRET env = or_default (env_JWT_SECRET env) ''please_change_this_secret_in_prod''"

definition json_error :: "nat \<Rightarrow> string \<Rightarrow> response" where
  "json_error code msg = \<lparr>status = code, body = JObj [(''error'', JStr msg)]\<rparr>"

text \<open>The message for a malformed header; it ends with a single quote.\<close>

definition malformed_header :: string where
  "malformed_header = ''Malformed Authorization header. Expected 'Bearer <token>'' @ [CHR 0x27]"

text \<open>
  \<^verbatim>\<open>verifyJwt\<close>, the same text in both servers. \<open>Reply\<close> is the response it sends itself,
  \<open>Next\<close> is the decoded payload it stores in \<^verbatim>\<open>req.user\<close> before calling \<^verbatim>\<open>next()\<close>, and
  \<open>Raise\<close> is an exception of \<^verbatim>\<open>jwt.verify\<close>, which the middleware calls outside any
  \<^verbatim>\<open>try\<close> and so lets through.
\<close>

datatype gate = Reply response | Raise string | Next jsval

definition verifyJwt :: "jwt_verify \<Rightarrow> process_env \<Rightarrow> nat \<Rightarrow> request \<Rightarrow> gate" where
  "verifyJwt verify env now req =
     (let authHeader = (case req_authorization req of None \<Rightarrow> [] | Some h \<Rightarrow> h) in
      if authHeader = [] then Reply (json_error 401 ''Missing Authorization header'')
      else
        let parts = js_split CHR '' '' authHeader in
        if length parts \<noteq> 2 \<or> parts ! 0 \<noteq> ''Bearer''
        then Reply (json_error 401 malformed_header)
        else
          let token = parts ! 1 in
          (case verify now token (JWT_SECRET env) of
             Thrown e \<Rightarrow> Raise e
           | Failed msg \<Rightarrow>
               Reply \<lparr>status = 401,
                      body = JObj [(''error'', JStr ''Invalid or expired token''), (''details'', JStr msg)]\<rparr>
           | Decoded decoded \<Rightarrow> Next decoded))"

section \<open>The server with roles (\<^verbatim>\<open>role-based-access-control.js\<close>)\<close>

definition rbac_JWT_EXPIRES_IN :: "process_env \<Rightarrow> string" where
  "rbac_JWT_EXPIRES_IN env = or_default (env_JWT_EXPIRES_IN env) ''2h''"

definition DEMO_USERS :: "jsval list" where
  "DEMO_USERS =
     [JObj [(''username'', JStr ''admin1''), (''password'', JStr ''adminpass''),
            (''role'', JStr ''admin''), (''name'', JStr ''Admin One'')],
      JObj [(''username'', JStr ''mod1''), (''password'', JStr ''modpass''),
            (''role'', JStr ''moderator''), (''name'', JStr ''Moderator One'')],
      JObj [(''username'', JStr ''alice''), (''password'', JStr ''alicepw''),
            (''role'', JStr ''user''), (''name'', JStr ''Alice'')]]"

definition rbac_signToken :: "jwt_sign \<Rightarrow> process_env \<Rightarrow> nat \<Rightarrow> jsval \<Rightarrow> string + string" where
  "rbac_signToken sign env now payload = sign now payload (JWT_SECRET env) (rbac_JWT_EXPIRES_IN env)"

text \<open>
  \<^verbatim>\<open>authorizeRoles(...allowedRoles)\<close> applied to \<^verbatim>\<open>req.user\<close>: \<open>Some\<close> is the response it
  sends, \<open>None\<close> is \<^verbatim>\<open>next()\<close>.
\<close>

definition authorizeRoles :: "string list \<Rightarrow> jsval \<Rightarrow> response option" where
  "authorizeRoles allowedRoles user =
     (if \<not> truthy user \<or> \<not> truthy (get_prop user ''role'')
      then Some (json_error 403 ''Access denied (no role present)'')
      else if \<not> js_includes allowedRoles (get_prop user ''role'')
      then Some (json_error 403 ''Access denied (insufficient role)'')
      else None)"

text \<open>The object literals of \<^verbatim>\<open>POST /login\<close>: the token payload and the \<open>user\<close> of the reply.\<close>

definition rbac_payload :: "jsval \<Rightarrow> jsval" where
  "rbac_payload user =
     JObj [(''username'', get_prop user ''username''), (''role'', get_prop user ''role''),
           (''name'', get_prop user ''name'')]"

definition rbac_login :: "jwt_sign \<Rightarrow> process_env \<Rightarrow> nat \<Rightarrow> request \<Rightarrow> outcome" where
  "rbac_login sign env now req =
     (let b = (if truthy (req_body req) then req_body req else JObj []);
          username = get_prop b ''username'';
          password = get_prop b ''password''
      in
      if \<not> truthy username \<or> \<not> truthy password
      then Sent (json_error 400 ''username and password required in body'')
      else
        (case find (\<lambda>u. strict_eq (get_prop u ''username'') username \<and>
                         strict_eq (get_prop u ''password'') password) DEMO_USERS of
           None \<Rightarrow> Sent (json_error 401 ''Invalid username or password'')
         | Some user \<Rightarrow>
             (case rbac_signToken sign env now (rbac_payload user) of
                Inl e \<Rightarrow> Threw e
              | Inr token \<Rightarrow>
                  Sent \<lparr>status = 200,
                        body = JObj [(''token'', JStr token),
                                     (''expiresIn'', JStr (rbac_JWT_EXPIRES_IN env)),
                                     (''user'', JObj [(''username'', get_prop user ''username''),
                                                      (''role'', get_prop user ''role''),
                                                      (''name'', get_prop user ''name'')])]\<rparr>)))"

definition rbac_get_profile :: "jwt_verify \<Rightarrow> process_env \<Rightarrow> nat \<Rightarrow> request \<Rightarrow> outcome" where
  "rbac_get_profile verify env now req =
     (case verifyJwt verify env now req of
        Reply r \<Rightarrow> Sent r
      | Raise e \<Rightarrow> Threw e
      | Next user \<Rightarrow>
          Sent \<lparr>status = 200, body = JObj [(''message'', JStr ''Profile data''), (''user'', user)]\<rparr>)"

definition rbac_get_moderator :: "jwt_verify \<Rightarrow> process_env \<Rightarrow> nat \<Rightarrow> request \<Rightarrow> outcome" where
  "rbac_get_moderator verify env now req =
     (case verifyJwt verify env now req of
        Reply r \<Rightarrow> Sent r
      | Raise e \<Rightarrow> Threw e
      | Next user \<Rightarrow>
          (case authorizeRoles [''moderator'', ''admin''] user of
             Some r \<Rightarrow> Sent r
           | None \<Rightarrow>
               Sent \<lparr>status = 200,
                     body = JObj [(''message'', JStr ''Moderator dashboard''), (''user'', user)]\<rparr>))"

definition rbac_get_admin :: "jwt_verify \<Rightarrow> process_env \<Rightarrow> nat \<Rightarrow> request \<Rightarrow> outcome" where
  "rbac_get_admin verify env now req =
     (case verifyJwt verify env now req of
        Reply r \<Rightarrow> Sent r
      | Raise e \<Rightarrow> Threw e
      | Next user \<Rightarrow>
          (case authorizeRoles [''admin''] user of
             Some r \<Rightarrow> Sent r
           | None \<Rightarrow>
               Sent \<lparr>status = 200,
                     body = JObj [(''message'', JStr ''Admin dashboard''), (''user'', user)]\<rparr>))"

text \<open>
  \<^verbatim>\<open>POST /moderation/action\<close> checks the role inside the handler; \<^verbatim>\<open>req.user?.role\<close> is
  \<open>undefined\<close> for a nullish \<^verbatim>\<open>req.user\<close>, and \<^verbatim>\<open>req.user.username\<close> of the message would
  throw for one, as the template literal does for a value that has no string conversion.
\<close>

definition rbac_post_moderation_action :: "jwt_verify \<Rightarrow> process_env \<Rightarrow> nat \<Rightarrow> request \<Rightarrow> outcome" where
  "rbac_post_moderation_action verify env now req =
     (case verifyJwt verify env now req of
        Reply r \<Rightarrow> Sent r
      | Raise e \<Rightarrow> Threw e
      | Next user \<Rightarrow>
          (let allowed = [''moderator'', ''admin''] in
           if \<not> js_includes allowed (if nullish user then JUndefined else get_prop user ''role'')
           then Sent (json_error 403 ''Not allowed to perform moderation actions'')
           else if nullish user then Threw ''TypeError''
           else
             (case (to_string (get_prop user ''username''), to_string (get_prop user ''role'')) of
                (Some username_text, Some role_text) \<Rightarrow>
                  Sent \<lparr>status = 200,
                        body = JObj [(''message'',
                          JStr (''Action performed by '' @ username_text @ '' ('' @ role_text @ '')''))]\<rparr>
              | _ \<Rightarrow> Threw ''TypeError'')))"

section \<open>The server with one user (\<^verbatim>\<open>server.js\<close>, JWT-protected routes)\<close>

definition single_JWT_EXPIRES_IN :: "process_env \<Rightarrow> string" where
  "single_JWT_EXPIRES_IN env = or_default (env_JWT_EXPIRES_IN env) ''1h''"

definition DEMO_USER :: jsval where
  "DEMO_USER =
     JObj [(''username'', JStr ''demo''), (''password'', JStr ''secret123''),
           (''name'', JStr ''Demo User''), (''email'', JStr ''demo@example.com'')]"

definition single_signToken :: "jwt_sign \<Rightarrow> process_env \<Rightarrow> nat \<Rightarrow> jsval \<Rightarrow> string + string" where
  "single_signToken sign env now payload =
     sign now payload (JWT_SECRET env) (single_JWT_EXPIRES_IN env)"

definition single_payload :: jsval where
  "single_payload =
     JObj [(''username'', get_prop DEMO_USER ''username''), (''name'', get_prop DEMO_USER ''name''),
           (''email'', get_prop DEMO_USER ''email'')]"

definition single_login :: "jwt_sign \<Rightarrow> process_env \<Rightarrow> nat \<Rightarrow> request \<Rightarrow> outcome" where
  "single_login sign env now req =
     (let b = (if truthy (req_body req) then req_body req else JObj []);
          username = get_prop b ''username'';
          password = get_prop b ''password''
      in
      if \<not> truthy username \<or> \<not> truthy password
      then Sent (json_error 400 ''username and password required'')
      else if \<not> strict_eq username (get_prop DEMO_USER ''username'') \<or>
              \<not> strict_eq password (get_prop DEMO_USER ''password'')
      then Sent (json_error 401 ''Invalid username or password'')
      else
        (case single_signToken sign env now single_payload of
           Inl e \<Rightarrow> Threw e
         | Inr token \<Rightarrow>
             Sent \<lparr>status = 200,
                   body = JObj [(''token'', JStr token),
                                (''expiresIn'', JStr (single_JWT_EXPIRES_IN env))]\<rparr>))"

definition single_get_protected :: "jwt_verify \<Rightarrow> process_env \<Rightarrow> nat \<Rightarrow> request \<Rightarrow> outcome" where
  "single_get_protected verify env now req =
     (case verifyJwt verify env now req of
        Reply r \<Rightarrow> Sent r
      | Raise e \<Rightarrow> Threw e
      | Next user \<Rightarrow>
          Sent \<lparr>status = 200,
                body = JObj [(''message'', JStr ''You accessed a protected resource''),
                             (''user'', user)]\<rparr>)"

definition single_get_profile :: "jwt_verify \<Rightarrow> process_env \<Rightarrow> nat \<Rightarrow> request \<Rightarrow> outcome" where
  "single_get_profile verify env now req =
     (case verifyJwt verify env now req of
        Reply r \<Rightarrow> Sent r
      | Raise e \<Rightarrow> Threw e
      | Next user \<Rightarrow>
          if nullish user then Threw ''TypeError''
          else
            Sent \<lparr>status = 200,
                  body = JObj [(''profile'',
                    JObj [(''username'', get_prop user ''username''), (''name'', get_prop user ''name''),
                          (''email'', get_prop user ''email''), (''joined'', JStr ''2024-01-01'')])]\<rparr>)"

section \<open>The token library, as the spec describes it\<close>

text \<open>\<^verbatim>\<open>String(n)\<close> for a natural number: its decimal digits.\<close>

fun show_nat :: "nat \<Rightarrow> string" where
  "show_nat n =
     (if n < 10 then [''0123456789'' ! n] else show_nat (n div 10) @ [''0123456789'' ! (n mod 10)])"

text \<open>
  Modelled from the spec: the \<open>jsonwebtoken\<close> package (\<^verbatim>\<open>jwt.sign\<close>, \<^verbatim>\<open>jwt.verify\<close>) is not
  under \<^verbatim>\<open>src/\<close>. What a token carries, after the spec's session token payload
  (``username, role, name, email, issued-at, expires-at''): the claims (the payload with
  the two timestamps added), the secret its signature was made with, and the expiry
  timestamp.
\<close>

record token_content =
  tok_claims :: jsval
  tok_key :: string
  tok_exp :: nat

fun stamp :: "jsval \<Rightarrow> nat \<Rightarrow> nat \<Rightarrow> jsval" where
  "stamp (JObj ps) iat exp = JObj (ps @ [(''iat'', JNum (show_nat iat)), (''exp'', JNum (show_nat exp))])"
| "stamp v iat exp = v"

text \<open>
  Modelled from the spec: \<^verbatim>\<open>jwt.sign\<close> is not under \<^verbatim>\<open>src/\<close>. The spec has the payload signed
  ``with a configured secret and configured expiry''. The text of a token is left to a
  codec: \<open>enc\<close> writes the text of a token, and \<open>span\<close> reads a lifetime string such as \<open>2h\<close>
  as seconds (\<open>None\<close> for a string that is no time span).
\<close>

definition model_sign :: "(string \<Rightarrow> nat option) \<Rightarrow> (token_content \<Rightarrow> string) \<Rightarrow> jwt_sign" where
  "model_sign span enc now payload secret expiresIn =
     (case span expiresIn of
        None \<Rightarrow> Inl ''invalid expiresIn''
      | Some d \<Rightarrow>
          Inr (enc \<lparr>tok_claims = stamp payload now (now + d), tok_key = secret, tok_exp = now + d\<rparr>))"

text \<open>
  Modelled from the spec: \<^verbatim>\<open>jwt.verify\<close> is not under \<^verbatim>\<open>src/\<close>. The spec has a verification of
  ``the token's signature and expiry'' that fails ``carrying the verification failure
  reason'', and a token that ``is accepted by the server for any request presenting it
  until its expiry timestamp elapses''. \<open>dec\<close> reads the text of a token back (\<open>None\<close> for a
  text that is no token); a signature is valid for the secret it was made with and for no
  other. The expiry is a claim of the payload (``expires implicitly via embedded expiry
  claim''), so the verification reads properties of the decoded payload once the signature
  holds: for a payload that is \<open>null\<close> that read is a \<open>TypeError\<close>, thrown and not handed to
  the callback.
\<close>

definition model_verify :: "(string \<Rightarrow> token_content option) \<Rightarrow> jwt_verify" where
  "model_verify dec now token secret =
     (case dec token of
        None \<Rightarrow> Failed ''jwt malformed''
      | Some t \<Rightarrow>
          if tok_key t \<noteq> secret then Failed ''invalid signature''
          else if nullish (tok_claims t) then Thrown ''TypeError''
          else if tok_exp t \<le> now then Failed ''jwt expired''
          else Decoded (tok_claims t))"

section \<open>Reading a reply\<close>

text \<open>The names of the properties of an object, as \<^verbatim>\<open>Object.keys\<close> lists them.\<close>

fun keys :: "jsval \<Rightarrow> string list" where
  "keys (JObj ps) = remdups (map fst ps)"
| "keys v = []"

text \<open>The status of the response a handler sent, and the token in a reply of \<^verbatim>\<open>/login\<close>.\<close>

fun sent_status :: "outcome \<Rightarrow> nat option" where
  "sent_status (Sent r) = Some (status r)"
| "sent_status (Threw e) = None"

fun sent_body :: "outcome \<Rightarrow> jsval" where
  "sent_body (Sent r) = body r"
| "sent_body (Threw e) = JUndefined"

text \<open>The pair a credential record is matched on.\<close>

definition credentials :: "jsval \<Rightarrow> jsval \<times> jsval" where
  "credentials u = (get_prop u ''username'', get_prop u ''password'')"

text \<open>The routes mounted behind \<^verbatim>\<open>verifyJwt\<close>, of both servers.\<close>

definition protected_routes :: "(jwt_verify \<Rightarrow> process_env \<Rightarrow> nat \<Rightarrow> request \<Rightarrow> outcome) list" where
  "protected_routes =
     [rbac_get_profile, rbac_get_moderator, rbac_get_admin, rbac_post_moderation_action,
      single_get_protected, single_get_profile]"

text \<open>\<^verbatim>\<open>haystack.includes(needle)\<close> on strings: whether a message mentions a phrase.\<close>

fun starts_with :: "string \<Rightarrow> string \<Rightarrow> bool" where
  "starts_with s [] = True"
| "starts_with [] (n # ns) = False"
| "starts_with (c # cs) (n # ns) = (c = n \<and> starts_with cs ns)"

fun mentions :: "string \<Rightarrow> string \<Rightarrow> bool" where
  "mentions [] needle = (needle = [])"
| "mentions (c # cs) needle = (starts_with (c # cs) needle \<or> mentions cs needle)"

section \<open>Splitting, comparing, and the outcome of \<^verbatim>\<open>verifyJwt\<close> on a bearer header\<close>

lemma js_split_not_Nil: "js_split sep s \<noteq> []"
  by (induction s) (auto split: list.splits)

lemma js_split_no_sep: "sep \<notin> set s \<Longrightarrow> js_split sep s = [s]"
  by (induction s) auto

lemma js_split_append: "sep \<notin> set a \<Longrightarrow> js_split sep (a @ sep # b) = a # js_split sep b"
  by (induction a) auto

lemma js_split_two:
  "js_split sep h = [a, t] \<Longrightarrow> h = a @ sep # t \<and> sep \<notin> set a \<and> sep \<notin> set t"
proof (induction h arbitrary: a)
  case Nil
  then show ?case by simp
next
  case (Cons c cs)
  show ?case
  proof (cases "c = sep")
    case True
    with Cons.prems have a: "a = []" and r: "js_split sep cs = [t]" by auto
    have "sep \<notin> set cs"
    proof
      assume "sep \<in> set cs"
      then obtain u v where "cs = u @ sep # v" "sep \<notin> set u"
        by (meson split_list_first)
      then have "js_split sep cs = u # js_split sep v" by (simp add: js_split_append)
      with r js_split_not_Nil [of sep v] show False by simp
    qed
    then have "js_split sep cs = [cs]" by (rule js_split_no_sep)
    with r have "t = cs" by simp
    with True a \<open>sep \<notin> set cs\<close> show ?thesis by simp
  next
    case False
    with Cons.prems obtain p where p: "js_split sep cs = [p, t]" and a: "a = c # p"
      by (auto split: list.splits)
    from Cons.IH [OF p] False a show ?thesis by simp
  qed
qed

lemma js_split_bearer:
  "CHR '' '' \<notin> set t \<Longrightarrow> js_split CHR '' '' (''Bearer '' @ t) = [''Bearer'', t]"
  using js_split_append [of "CHR '' ''" "''Bearer''" t] by (simp add: js_split_no_sep)

lemma strict_eq_JStr: "strict_eq (JStr a) v = (v = JStr a)"
  by (cases v) auto

lemma strict_eq_JStr2: "strict_eq v (JStr a) = (v = JStr a)"
  by (cases v) auto

lemma verifyJwt_bearer:
  assumes "CHR '' '' \<notin> set t"
  shows "verifyJwt verify env now \<lparr>req_authorization = Some (''Bearer '' @ t), req_body = b\<rparr> =
    (case verify now t (JWT_SECRET env) of
       Thrown e \<Rightarrow> Raise e
     | Failed msg \<Rightarrow>
         Reply \<lparr>status = 401,
                body = JObj [(''error'', JStr ''Invalid or expired token''), (''details'', JStr msg)]\<rparr>
     | Decoded decoded \<Rightarrow> Next decoded)"
  by (simp only: verifyJwt_def Let_def request.select_convs option.case js_split_bearer [OF assms]) simp

lemma verifyJwt_rejects_cases:
  "verifyJwt verify env now req = Reply r \<Longrightarrow> status r = 401"
  by (auto simp: verifyJwt_def Let_def json_error_def split: option.splits if_splits verdict.splits)

lemma js_includes_mod: "js_includes [''moderator'', ''admin''] v = (v = JStr ''moderator'' \<or> v = JStr ''admin'')"
  by (auto simp: js_includes_def strict_eq_JStr)

lemma js_includes_admin: "js_includes [''admin''] v = (v = JStr ''admin'')"
  by (auto simp: js_includes_def strict_eq_JStr)

lemma get_prop_truthy: "get_prop user k = JStr s \<Longrightarrow> truthy user"
  by (cases user) auto

lemma verifyJwt_missing:
  "req_authorization req = None \<or> req_authorization req = Some [] \<Longrightarrow>
   verifyJwt verify env now req = Reply (json_error 401 ''Missing Authorization header'')"
  by (auto simp: verifyJwt_def)

lemma verifyJwt_malformed:
  assumes "req_authorization req = Some h" and "h \<noteq> []"
    and "\<not> (\<exists>t. h = ''Bearer '' @ t \<and> CHR '' '' \<notin> set t)"
  shows "verifyJwt verify env now req = Reply (json_error 401 malformed_header)"
proof -
  have "length (js_split CHR '' '' h) \<noteq> 2 \<or> js_split CHR '' '' h ! 0 \<noteq> ''Bearer''"
  proof (rule ccontr)
    assume "\<not> ?thesis"
    then have l: "length (js_split CHR '' '' h) = 2" and b: "js_split CHR '' '' h ! 0 = ''Bearer''"
      by auto
    from l obtain a t where at: "js_split CHR '' '' h = [a, t]"
      by (cases "js_split CHR '' '' h" rule: list.exhaust; simp)
         (metis Suc_length_conv length_0_conv)
    with b have "a = ''Bearer''" by simp
    with js_split_two [OF at] have "h = ''Bearer '' @ t \<and> CHR '' '' \<notin> set t" by simp
    with assms(3) show False by blast
  qed
  with assms(1,2) show ?thesis
    by (simp only: verifyJwt_def Let_def option.case if_False if_True)
qed

lemma protected_route_rejected:
  assumes "route \<in> set protected_routes" and "verifyJwt verify env now req = Reply r"
  shows "route verify env now req = Sent r"
  using assms
  by (auto simp: protected_routes_def rbac_get_profile_def rbac_get_moderator_def rbac_get_admin_def
      rbac_post_moderation_action_def single_get_protected_def single_get_profile_def)

section \<open>The outcomes of \<^verbatim>\<open>POST /login\<close>\<close>

lemma DEMO_USERS_cases:
  "u \<in> set DEMO_USERS \<Longrightarrow>
     u = JObj [(''username'', JStr ''admin1''), (''password'', JStr ''adminpass''),
            (''role'', JStr ''admin''), (''name'', JStr ''Admin One'')] \<or>
     u = JObj [(''username'', JStr ''mod1''), (''password'', JStr ''modpass''),
            (''role'', JStr ''moderator''), (''name'', JStr ''Moderator One'')] \<or>
     u = JObj [(''username'', JStr ''alice''), (''password'', JStr ''alicepw''),
            (''role'', JStr ''user''), (''name'', JStr ''Alice'')]"
  by (simp add: DEMO_USERS_def)

lemma find_DEMO_USERS_known:
  assumes "u \<in> set DEMO_USERS"
  shows "find (\<lambda>v. strict_eq (get_prop v ''username'') (get_prop u ''username'') \<and>
             strict_eq (get_prop v ''password'') (get_prop u ''password'')) DEMO_USERS
     = Some u"
  using DEMO_USERS_cases [OF assms]
  by (elim disjE) (simp_all add: DEMO_USERS_def)

lemma DEMO_USERS_truthy:
  assumes "u \<in> set DEMO_USERS"
  shows "truthy (get_prop u ''username'') \<and> truthy (get_prop u ''password'')"
  using DEMO_USERS_cases [OF assms] by (elim disjE) simp_all

lemma find_DEMO_USERS_unknown:
  "(a, b) \<notin> set (map credentials DEMO_USERS) \<Longrightarrow>
   find (\<lambda>u. strict_eq (get_prop u ''username'') a \<and> strict_eq (get_prop u ''password'') b) DEMO_USERS
     = None"
  by (simp add: DEMO_USERS_def credentials_def strict_eq_JStr)

lemma get_prop_body_or_empty:
  "get_prop (if truthy x then x else JObj []) k = get_prop x k"
  by (cases x) auto

lemma rbac_login_missing:
  "\<not> truthy (get_prop (req_body req) ''username'') \<or> \<not> truthy (get_prop (req_body req) ''password'') \<Longrightarrow>
   rbac_login sign env now req = Sent (json_error 400 ''username and password required in body'')"
  by (auto simp: rbac_login_def Let_def get_prop_body_or_empty)

lemma single_login_missing:
  "\<not> truthy (get_prop (req_body req) ''username'') \<or> \<not> truthy (get_prop (req_body req) ''password'') \<Longrightarrow>
   single_login sign env now req = Sent (json_error 400 ''username and password required'')"
  by (auto simp: single_login_def Let_def get_prop_body_or_empty)

lemma rbac_login_unknown:
  assumes "truthy (get_prop (req_body req) ''username'')"
    and "truthy (get_prop (req_body req) ''password'')"
    and "(get_prop (req_body req) ''username'', get_prop (req_body req) ''password'')
           \<notin> set (map credentials DEMO_USERS)"
  shows "rbac_login sign env now req = Sent (json_error 401 ''Invalid username or password'')"
  using assms(1,2)
  by (simp add: rbac_login_def Let_def get_prop_body_or_empty find_DEMO_USERS_unknown [OF assms(3)])

lemma single_login_unknown:
  assumes "truthy (get_prop (req_body req) ''username'')"
    and "truthy (get_prop (req_body req) ''password'')"
    and "(get_prop (req_body req) ''username'', get_prop (req_body req) ''password'')
           \<noteq> credentials DEMO_USER"
  shows "single_login sign env now req = Sent (json_error 401 ''Invalid username or password'')"
  using assms
  by (simp add: single_login_def Let_def get_prop_body_or_empty DEMO_USER_def credentials_def
      strict_eq_JStr2)

lemma rbac_login_known:
  assumes "u \<in> set DEMO_USERS"
    and "(get_prop (req_body req) ''username'', get_prop (req_body req) ''password'') = credentials u"
  shows "rbac_login sign env now req =
     (case sign now (rbac_payload u) (JWT_SECRET env) (rbac_JWT_EXPIRES_IN env) of
        Inl e \<Rightarrow> Threw e
      | Inr token \<Rightarrow>
          Sent \<lparr>status = 200,
                body = JObj [(''token'', JStr token),
                             (''expiresIn'', JStr (rbac_JWT_EXPIRES_IN env)),
                             (''user'', JObj [(''username'', get_prop u ''username''),
                                              (''role'', get_prop u ''role''),
                                              (''name'', get_prop u ''name'')])]\<rparr>)"
proof -
  from assms(2) have e: "get_prop (req_body req) ''username'' = get_prop u ''username''"
    "get_prop (req_body req) ''password'' = get_prop u ''password''"
    by (simp_all add: credentials_def)
  show ?thesis
    unfolding rbac_login_def Let_def get_prop_body_or_empty e rbac_signToken_def
      find_DEMO_USERS_known [OF assms(1)]
    using DEMO_USERS_truthy [OF assms(1)] by simp
qed

lemma single_login_known:
  assumes "(get_prop (req_body req) ''username'', get_prop (req_body req) ''password'')
      = credentials DEMO_USER"
  shows "single_login sign env now req =
     (case sign now single_payload (JWT_SECRET env) (single_JWT_EXPIRES_IN env) of
        Inl e \<Rightarrow> Threw e
      | Inr token \<Rightarrow>
          Sent \<lparr>status = 200,
                body = JObj [(''token'', JStr token),
                             (''expiresIn'', JStr (single_JWT_EXPIRES_IN env))]\<rparr>)"
proof -
  from assms have e: "get_prop (req_body req) ''username'' = JStr ''demo''"
    "get_prop (req_body req) ''password'' = JStr ''secret123''"
    by (simp_all add: credentials_def DEMO_USER_def)
  show ?thesis
    unfolding single_login_def Let_def get_prop_body_or_empty e single_signToken_def
    by (simp add: DEMO_USER_def)
qed

lemma keys_rbac_payload: "keys (rbac_payload u) = [''username'', ''role'', ''name'']"
  by (simp add: rbac_payload_def)

lemma keys_single_payload: "keys single_payload = [''username'', ''name'', ''email'']"
  by (simp add: single_payload_def)

lemma strict_eq_imp_eq: "strict_eq a b \<Longrightarrow> a = b"
  by (cases a; cases b) auto

lemma response_eqI: "status r = c \<Longrightarrow> body r = b \<Longrightarrow> r = \<lparr>status = c, body = b\<rparr>"
  by (cases r) simp

lemma rbac_login_200:
  assumes "rbac_login sign env now req = Sent r" and "status r = 200"
  shows "\<exists>token u. u \<in> set DEMO_USERS \<and>
     (get_prop (req_body req) ''username'', get_prop (req_body req) ''password'') = credentials u \<and>
     sign now (rbac_payload u) (JWT_SECRET env) (rbac_JWT_EXPIRES_IN env) = Inr token \<and>
     r = \<lparr>status = 200,
          body = JObj [(''token'', JStr token),
                       (''expiresIn'', JStr (rbac_JWT_EXPIRES_IN env)),
                       (''user'', JObj [(''username'', get_prop u ''username''),
                                        (''role'', get_prop u ''role''),
                                        (''name'', get_prop u ''name'')])]\<rparr>"
proof -
  let ?P = "\<lambda>u. strict_eq (get_prop u ''username'') (get_prop (req_body req) ''username'') \<and>
                strict_eq (get_prop u ''password'') (get_prop (req_body req) ''password'')"
  from assms obtain u token where f: "find ?P DEMO_USERS = Some u"
    and s: "sign now (rbac_payload u) (JWT_SECRET env) (rbac_JWT_EXPIRES_IN env) = Inr token"
    and b: "body r = JObj [(''token'', JStr token),
                    (''expiresIn'', JStr (rbac_JWT_EXPIRES_IN env)),
                    (''user'', JObj [(''username'', get_prop u ''username''),
                                     (''role'', get_prop u ''role''),
                                     (''name'', get_prop u ''name'')])]"
    unfolding rbac_login_def Let_def rbac_signToken_def get_prop_body_or_empty
    by (auto simp: json_error_def split: if_splits option.splits sum.splits)
  from f have m: "u \<in> set DEMO_USERS" and p: "?P u" by (auto simp: find_Some_iff)
  from p have c: "(get_prop (req_body req) ''username'', get_prop (req_body req) ''password'')
      = credentials u"
    by (auto simp: credentials_def dest: strict_eq_imp_eq)
  from assms(2) b have "r = \<lparr>status = 200,
          body = JObj [(''token'', JStr token),
                       (''expiresIn'', JStr (rbac_JWT_EXPIRES_IN env)),
                       (''user'', JObj [(''username'', get_prop u ''username''),
                                        (''role'', get_prop u ''role''),
                                        (''name'', get_prop u ''name'')])]\<rparr>"
    by (rule response_eqI)
  with m c s show ?thesis by blast
qed

lemma single_login_200:
  assumes "single_login sign env now req = Sent r" and "status r = 200"
  shows "\<exists>token.
     (get_prop (req_body req) ''username'', get_prop (req_body req) ''password'')
       = credentials DEMO_USER \<and>
     sign now single_payload (JWT_SECRET env) (single_JWT_EXPIRES_IN env) = Inr token \<and>
     r = \<lparr>status = 200,
          body = JObj [(''token'', JStr token), (''expiresIn'', JStr (single_JWT_EXPIRES_IN env))]\<rparr>"
proof -
  from assms obtain token where
    u: "strict_eq (get_prop (req_body req) ''username'') (get_prop DEMO_USER ''username'')"
    and w: "strict_eq (get_prop (req_body req) ''password'') (get_prop DEMO_USER ''password'')"
    and s: "sign now single_payload (JWT_SECRET env) (single_JWT_EXPIRES_IN env) = Inr token"
    and b: "body r = JObj [(''token'', JStr token), (''expiresIn'', JStr (single_JWT_EXPIRES_IN env))]"
    unfolding single_login_def Let_def single_signToken_def get_prop_body_or_empty
    by (auto simp: json_error_def split: if_splits sum.splits)
  from u w have c: "(get_prop (req_body req) ''username'', get_prop (req_body req) ''password'')
       = credentials DEMO_USER"
    by (auto simp: credentials_def dest: strict_eq_imp_eq)
  from assms(2) b have "r = \<lparr>status = 200,
      body = JObj [(''token'', JStr token), (''expiresIn'', JStr (single_JWT_EXPIRES_IN env))]\<rparr>"
    by (rule response_eqI)
  with c s show ?thesis by blast
qed

lemma verifyJwt_secret_only:
  assumes "JWT_SECRET env' = JWT_SECRET env"
  shows "verifyJwt verify env now \<lparr>req_authorization = h, req_body = b\<rparr>
       = verifyJwt verify env' now \<lparr>req_authorization = h, req_body = b'\<rparr>"
  by (simp add: verifyJwt_def Let_def assms)

lemma model_token_accepted:
  assumes "dec (enc t) = Some t" and "CHR '' '' \<notin> set (enc t)"
    and "tok_key t = JWT_SECRET env" and "now < tok_exp t" and "\<not> nullish (tok_claims t)"
  shows "verifyJwt (model_verify dec) env now
      \<lparr>req_authorization = Some (''Bearer '' @ enc t), req_body = b\<rparr> = Next (tok_claims t)"
proof -
  have "model_verify dec now (enc t) (JWT_SECRET env) = Decoded (tok_claims t)"
    using assms(1,3,4,5) by (simp add: model_verify_def)
  with verifyJwt_bearer [OF assms(2), of "model_verify dec" env now b] show ?thesis
    by (simp only: verdict.case)
qed

section \<open>The form: properties\<close>

text \<open>
  C7. On every submission: if the username or the password field is the empty string, the
  error message becomes the fixed warning and nothing else happens (the fields keep their
  values, nothing is logged, no alert is raised; only the page reload is suppressed); if
  both fields are non-empty, the error message is cleared and the alert naming the entered
  username is raised.
\<close>

theorem handleSubmit_validates:
  "(username (formData s) = [] \<or> password (formData s) = [] \<longrightarrow>
      fst (handleSubmit s) = s\<lparr>error := warning\<rparr> \<and>
      formData (fst (handleSubmit s)) = formData s \<and>
      snd (handleSubmit s) = [PreventDefault]) \<and>
   (username (formData s) \<noteq> [] \<and> password (formData s) \<noteq> [] \<longrightarrow>
      error (fst (handleSubmit s)) = [] \<and>
      formData (fst (handleSubmit s)) = formData s \<and>
      Alert (''Logged in as: '' @ username (formData s)) \<in> set (snd (handleSubmit s)))"
  by (simp add: handleSubmit_def)

theorem handleSubmit_validates_witness:
  "fst (handleSubmit \<lparr>formData = \<lparr>username = ''bob'', password = []\<rparr>, error = []\<rparr>)
     = \<lparr>formData = \<lparr>username = ''bob'', password = []\<rparr>, error = warning\<rparr> \<and>
   snd (handleSubmit \<lparr>formData = \<lparr>username = ''bob'', password = []\<rparr>, error = []\<rparr>)
     = [PreventDefault] \<and>
   error (fst (handleSubmit \<lparr>formData = \<lparr>username = ''bob'', password = ''pw''\<rparr>, error = warning\<rparr>))
     = [] \<and>
   Alert ''Logged in as: bob''
     \<in> set (snd (handleSubmit \<lparr>formData = \<lparr>username = ''bob'', password = ''pw''\<rparr>, error = warning\<rparr>))"
  using handleSubmit_validates [of "\<lparr>formData = \<lparr>username = ''bob'', password = []\<rparr>, error = []\<rparr>"]
    handleSubmit_validates [of "\<lparr>formData = \<lparr>username = ''bob'', password = ''pw''\<rparr>, error = warning\<rparr>"]
  by simp


section \<open>The role gate: properties\<close>

text \<open>
  C1. In the server with roles, for every request whose token \<^verbatim>\<open>verifyJwt\<close> has verified:
  a decoded role \<open>user\<close> is answered 403 on \<^verbatim>\<open>GET /moderator\<close> and on \<^verbatim>\<open>GET /admin\<close>; a
  decoded role \<open>admin\<close> reaches the handler of both routes; a decoded role \<open>moderator\<close>
  reaches the handler of \<^verbatim>\<open>GET /moderator\<close> and is answered 403 on \<^verbatim>\<open>GET /admin\<close>.
\<close>

theorem rbac_role_matrix:
  assumes "verifyJwt verify env now req = Next user"
  shows
    "(get_prop user ''role'' = JStr ''user'' \<longrightarrow>
        rbac_get_moderator verify env now req = Sent (json_error 403 ''Access denied (insufficient role)'') \<and>
        rbac_get_admin verify env now req = Sent (json_error 403 ''Access denied (insufficient role)'')) \<and>
     (get_prop user ''role'' = JStr ''admin'' \<longrightarrow>
        rbac_get_moderator verify env now req =
          Sent \<lparr>status = 200, body = JObj [(''message'', JStr ''Moderator dashboard''), (''user'', user)]\<rparr> \<and>
        rbac_get_admin verify env now req =
          Sent \<lparr>status = 200, body = JObj [(''message'', JStr ''Admin dashboard''), (''user'', user)]\<rparr>) \<and>
     (get_prop user ''role'' = JStr ''moderator'' \<longrightarrow>
        rbac_get_moderator verify env now req =
          Sent \<lparr>status = 200, body = JObj [(''message'', JStr ''Moderator dashboard''), (''user'', user)]\<rparr> \<and>
        rbac_get_admin verify env now req = Sent (json_error 403 ''Access denied (insufficient role)''))"
  using assms
  by (auto simp: rbac_get_moderator_def rbac_get_admin_def authorizeRoles_def js_includes_mod
      js_includes_admin dest: get_prop_truthy)

theorem rbac_role_matrix_witness:
  "rbac_get_moderator (\<lambda>now token secret. Decoded (JObj [(''username'', JStr token), (''role'', JStr token)]))
      \<lparr>env_JWT_SECRET = None, env_JWT_EXPIRES_IN = None\<rparr> 0
      \<lparr>req_authorization = Some ''Bearer user'', req_body = JUndefined\<rparr>
     = Sent (json_error 403 ''Access denied (insufficient role)'') \<and>
   rbac_get_admin (\<lambda>now token secret. Decoded (JObj [(''username'', JStr token), (''role'', JStr token)]))
      \<lparr>env_JWT_SECRET = None, env_JWT_EXPIRES_IN = None\<rparr> 0
      \<lparr>req_authorization = Some ''Bearer admin'', req_body = JUndefined\<rparr>
     = Sent \<lparr>status = 200,
             body = JObj [(''message'', JStr ''Admin dashboard''),
                          (''user'', JObj [(''username'', JStr ''admin''), (''role'', JStr ''admin'')])]\<rparr> \<and>
   rbac_get_admin (\<lambda>now token secret. Decoded (JObj [(''username'', JStr token), (''role'', JStr token)]))
      \<lparr>env_JWT_SECRET = None, env_JWT_EXPIRES_IN = None\<rparr> 0
      \<lparr>req_authorization = Some ''Bearer moderator'', req_body = JUndefined\<rparr>
     = Sent (json_error 403 ''Access denied (insufficient role)'')"
proof -
  let ?V = "\<lambda>(now::nat) (token::string) (secret::string).
      Decoded (JObj [(''username'', JStr token), (''role'', JStr token)])"
  let ?env = "\<lparr>env_JWT_SECRET = None, env_JWT_EXPIRES_IN = None\<rparr>"
  have u: "verifyJwt ?V ?env 0 \<lparr>req_authorization = Some ''Bearer user'', req_body = JUndefined\<rparr>
      = Next (JObj [(''username'', JStr ''user''), (''role'', JStr ''user'')])"
    by (simp add: verifyJwt_def Let_def)
  have a: "verifyJwt ?V ?env 0 \<lparr>req_authorization = Some ''Bearer admin'', req_body = JUndefined\<rparr>
      = Next (JObj [(''username'', JStr ''admin''), (''role'', JStr ''admin'')])"
    by (simp add: verifyJwt_def Let_def)
  have m: "verifyJwt ?V ?env 0 \<lparr>req_authorization = Some ''Bearer moderator'', req_body = JUndefined\<rparr>
      = Next (JObj [(''username'', JStr ''moderator''), (''role'', JStr ''moderator'')])"
    by (simp add: verifyJwt_def Let_def)
  from rbac_role_matrix [OF u] rbac_role_matrix [OF a] rbac_role_matrix [OF m]
  show ?thesis by simp
qed




section \<open>Token verification: properties\<close>

text \<open>
  C5, as the code has it. On every route behind \<^verbatim>\<open>verifyJwt\<close>: a request with no
  \<open>Authorization\<close> header, or an empty one, is answered 401 with the message
  \<open>Missing Authorization header\<close>; a request whose non-empty header is not \<open>Bearer\<close>, one
  space, and a token without a space (a wrong scheme word, or a number of parts other than
  two) is answered 401 with the message that names the expected \<open>Bearer <token>\<close> format.
  In both cases the reply is the one of \<^verbatim>\<open>verifyJwt\<close>, whatever the library would say of
  the token: the handler is not reached.
\<close>

theorem bad_header_rejected:
  assumes "route \<in> set protected_routes"
  shows
    "(req_authorization req = None \<or> req_authorization req = Some [] \<longrightarrow>
        route verify env now req = Sent (json_error 401 ''Missing Authorization header'')) \<and>
     (\<forall>h. req_authorization req = Some h \<and> h \<noteq> [] \<and>
          \<not> (\<exists>t. h = ''Bearer '' @ t \<and> CHR '' '' \<notin> set t) \<longrightarrow>
        route verify env now req = Sent (json_error 401 malformed_header)) \<and>
     mentions malformed_header ''Bearer <token>''"
proof (intro conjI impI allI)
  assume "req_authorization req = None \<or> req_authorization req = Some []"
  then show "route verify env now req = Sent (json_error 401 ''Missing Authorization header'')"
    by (intro protected_route_rejected [OF assms] verifyJwt_missing)
next
  fix h
  assume "req_authorization req = Some h \<and> h \<noteq> [] \<and>
          \<not> (\<exists>t. h = ''Bearer '' @ t \<and> CHR '' '' \<notin> set t)"
  then show "route verify env now req = Sent (json_error 401 malformed_header)"
    by (intro protected_route_rejected [OF assms] verifyJwt_malformed) auto
next
  show "mentions malformed_header ''Bearer <token>''"
    by (simp add: malformed_header_def)
qed

theorem bad_header_rejected_witness:
  "rbac_get_admin (\<lambda>now token secret. Decoded JNull)
      \<lparr>env_JWT_SECRET = None, env_JWT_EXPIRES_IN = None\<rparr> 0
      \<lparr>req_authorization = None, req_body = JUndefined\<rparr>
     = Sent (json_error 401 ''Missing Authorization header'') \<and>
   single_get_profile (\<lambda>now token secret. Decoded JNull)
      \<lparr>env_JWT_SECRET = None, env_JWT_EXPIRES_IN = None\<rparr> 0
      \<lparr>req_authorization = Some ''Basic abc'', req_body = JUndefined\<rparr>
     = Sent (json_error 401 malformed_header) \<and>
   rbac_get_profile (\<lambda>now token secret. Decoded JNull)
      \<lparr>env_JWT_SECRET = None, env_JWT_EXPIRES_IN = None\<rparr> 0
      \<lparr>req_authorization = Some ''Bearer a b'', req_body = JUndefined\<rparr>
     = Sent (json_error 401 malformed_header)"
proof -
  have r1: "rbac_get_admin \<in> set protected_routes"
    and r2: "single_get_profile \<in> set protected_routes"
    and r3: "rbac_get_profile \<in> set protected_routes"
    by (simp_all add: protected_routes_def)
  have b2: "\<not> (\<exists>t. ''Basic abc'' = ''Bearer '' @ t \<and> CHR '' '' \<notin> set t)" by simp
  have b3: "\<not> (\<exists>t. ''Bearer a b'' = ''Bearer '' @ t \<and> CHR '' '' \<notin> set t)" by auto
  from bad_header_rejected [OF r1, of "\<lparr>req_authorization = None, req_body = JUndefined\<rparr>"]
    bad_header_rejected [OF r2, of "\<lparr>req_authorization = Some ''Basic abc'', req_body = JUndefined\<rparr>"]
    bad_header_rejected [OF r3, of "\<lparr>req_authorization = Some ''Bearer a b'', req_body = JUndefined\<rparr>"]
    b2 b3
  show ?thesis by simp
qed

text \<open>
  The claim as written asks for the message naming the \<open>Bearer <token>\<close> format also when
  the header is missing; the code answers a missing header with another message.
\<close>

theorem missing_header_counterexample:
  "rbac_get_profile (\<lambda>now token secret. Failed [])
      \<lparr>env_JWT_SECRET = None, env_JWT_EXPIRES_IN = None\<rparr> 0
      \<lparr>req_authorization = None, req_body = JUndefined\<rparr>
     = Sent \<lparr>status = 401, body = JObj [(''error'', JStr ''Missing Authorization header'')]\<rparr> \<and>
   \<not> mentions ''Missing Authorization header'' ''Bearer <token>''"
  by (simp add: rbac_get_profile_def verifyJwt_def json_error_def)

section \<open>Login: properties\<close>

text \<open>
  C3, as the code has it. In both servers, for every request whose \<open>username\<close> and
  \<open>password\<close> are both truthy (non-empty strings, for instance) and whose pair is not in
  the fixed credential list, \<^verbatim>\<open>POST /login\<close> answers 401 with the message
  \<open>Invalid username or password\<close>, and the reply carries no token.
\<close>

theorem unknown_credentials_rejected:
  assumes "truthy (get_prop (req_body req) ''username'')"
    and "truthy (get_prop (req_body req) ''password'')"
  shows
    "((get_prop (req_body req) ''username'', get_prop (req_body req) ''password'')
         \<notin> set (map credentials DEMO_USERS) \<longrightarrow>
        rbac_login sign env now req = Sent (json_error 401 ''Invalid username or password'') \<and>
        get_prop (sent_body (rbac_login sign env now req)) ''token'' = JUndefined) \<and>
     ((get_prop (req_body req) ''username'', get_prop (req_body req) ''password'')
         \<noteq> credentials DEMO_USER \<longrightarrow>
        single_login sign env now req = Sent (json_error 401 ''Invalid username or password'') \<and>
        get_prop (sent_body (single_login sign env now req)) ''token'' = JUndefined)"
  using assms
  by (simp add: rbac_login_unknown single_login_unknown json_error_def)

theorem unknown_credentials_rejected_witness:
  "rbac_login (\<lambda>now payload secret expiresIn. Inr ''t'')
      \<lparr>env_JWT_SECRET = None, env_JWT_EXPIRES_IN = None\<rparr> 0
      \<lparr>req_authorization = None,
       req_body = JObj [(''username'', JStr ''alice''), (''password'', JStr ''modpass'')]\<rparr>
     = Sent (json_error 401 ''Invalid username or password'') \<and>
   single_login (\<lambda>now payload secret expiresIn. Inr ''t'')
      \<lparr>env_JWT_SECRET = None, env_JWT_EXPIRES_IN = None\<rparr> 0
      \<lparr>req_authorization = None,
       req_body = JObj [(''username'', JStr ''alice''), (''password'', JStr ''modpass'')]\<rparr>
     = Sent (json_error 401 ''Invalid username or password'')"
proof -
  let ?req = "\<lparr>req_authorization = None,
       req_body = JObj [(''username'', JStr ''alice''), (''password'', JStr ''modpass'')]\<rparr>"
  have t: "truthy (get_prop (req_body ?req) ''username'')" "truthy (get_prop (req_body ?req) ''password'')"
    by simp_all
  have n: "(get_prop (req_body ?req) ''username'', get_prop (req_body ?req) ''password'')
         \<notin> set (map credentials DEMO_USERS)"
    "(get_prop (req_body ?req) ''username'', get_prop (req_body ?req) ''password'')
         \<noteq> credentials DEMO_USER"
    by (simp_all add: DEMO_USERS_def DEMO_USER_def credentials_def)
  from unknown_credentials_rejected [OF t] n show ?thesis by blast
qed

text \<open>
  The claim as written covers every pair that is not in the list; a pair with an empty
  username is not in the list and is answered 400, not 401.
\<close>

theorem empty_username_counterexample:
  "(JStr [], JStr ''x'') \<notin> set (map credentials DEMO_USERS) \<and>
   sent_status (rbac_login (\<lambda>now payload secret expiresIn. Inr ''t'')
      \<lparr>env_JWT_SECRET = None, env_JWT_EXPIRES_IN = None\<rparr> 0
      \<lparr>req_authorization = None,
       req_body = JObj [(''username'', JStr []), (''password'', JStr ''x'')]\<rparr>) = Some 400"
  by (simp add: DEMO_USERS_def credentials_def rbac_login_def json_error_def)

text \<open>
  C6, as the code has it. In both servers, take two failed attempts whose username and
  password are truthy (present and non-empty): one whose username belongs to no credential
  record, one whose username belongs to a record but whose pair is in no record. Both get
  the same reply, status 401 with the message \<open>Invalid username or password\<close>, whatever
  else differs between the two requests.
\<close>

theorem failed_logins_indistinguishable:
  assumes "truthy (get_prop (req_body reqA) ''username'')" and "truthy (get_prop (req_body reqA) ''password'')"
    and "truthy (get_prop (req_body reqB) ''username'')" and "truthy (get_prop (req_body reqB) ''password'')"
  shows
    "(get_prop (req_body reqA) ''username'' \<notin> set (map (\<lambda>u. get_prop u ''username'') DEMO_USERS) \<and>
      get_prop (req_body reqB) ''username'' \<in> set (map (\<lambda>u. get_prop u ''username'') DEMO_USERS) \<and>
      (get_prop (req_body reqB) ''username'', get_prop (req_body reqB) ''password'')
         \<notin> set (map credentials DEMO_USERS) \<longrightarrow>
        rbac_login signA envA nowA reqA = Sent (json_error 401 ''Invalid username or password'') \<and>
        rbac_login signB envB nowB reqB = rbac_login signA envA nowA reqA) \<and>
     (get_prop (req_body reqA) ''username'' \<noteq> get_prop DEMO_USER ''username'' \<and>
      get_prop (req_body reqB) ''username'' = get_prop DEMO_USER ''username'' \<and>
      get_prop (req_body reqB) ''password'' \<noteq> get_prop DEMO_USER ''password'' \<longrightarrow>
        single_login signA envA nowA reqA = Sent (json_error 401 ''Invalid username or password'') \<and>
        single_login signB envB nowB reqB = single_login signA envA nowA reqA)"
proof (intro conjI impI)
  assume h: "get_prop (req_body reqA) ''username'' \<notin> set (map (\<lambda>u. get_prop u ''username'') DEMO_USERS) \<and>
      get_prop (req_body reqB) ''username'' \<in> set (map (\<lambda>u. get_prop u ''username'') DEMO_USERS) \<and>
      (get_prop (req_body reqB) ''username'', get_prop (req_body reqB) ''password'')
         \<notin> set (map credentials DEMO_USERS)"
  then have "(get_prop (req_body reqA) ''username'', get_prop (req_body reqA) ''password'')
         \<notin> set (map credentials DEMO_USERS)"
    by (auto simp: credentials_def)
  then have a: "rbac_login signA envA nowA reqA = Sent (json_error 401 ''Invalid username or password'')"
    using assms(1,2) by (intro rbac_login_unknown)
  from h have b: "rbac_login signB envB nowB reqB = Sent (json_error 401 ''Invalid username or password'')"
    using assms(3,4) by (intro rbac_login_unknown) simp_all
  from a show "rbac_login signA envA nowA reqA = Sent (json_error 401 ''Invalid username or password'')" .
  from a b show "rbac_login signB envB nowB reqB = rbac_login signA envA nowA reqA" by simp
next
  assume h: "get_prop (req_body reqA) ''username'' \<noteq> get_prop DEMO_USER ''username'' \<and>
      get_prop (req_body reqB) ''username'' = get_prop DEMO_USER ''username'' \<and>
      get_prop (req_body reqB) ''password'' \<noteq> get_prop DEMO_USER ''password''"
  have a: "single_login signA envA nowA reqA = Sent (json_error 401 ''Invalid username or password'')"
    using assms(1,2) h by (intro single_login_unknown) (simp_all add: credentials_def)
  have b: "single_login signB envB nowB reqB = Sent (json_error 401 ''Invalid username or password'')"
    using assms(3,4) h by (intro single_login_unknown) (simp_all add: credentials_def)
  from a show "single_login signA envA nowA reqA = Sent (json_error 401 ''Invalid username or password'')" .
  from a b show "single_login signB envB nowB reqB = single_login signA envA nowA reqA" by simp
qed

theorem failed_logins_indistinguishable_witness:
  "rbac_login (\<lambda>now payload secret expiresIn. Inr ''t'')
      \<lparr>env_JWT_SECRET = None, env_JWT_EXPIRES_IN = None\<rparr> 5
      \<lparr>req_authorization = None,
       req_body = JObj [(''username'', JStr ''demo''), (''password'', JStr ''nope'')]\<rparr>
     = rbac_login (\<lambda>now payload secret expiresIn. Inr ''t'')
      \<lparr>env_JWT_SECRET = None, env_JWT_EXPIRES_IN = None\<rparr> 0
      \<lparr>req_authorization = None,
       req_body = JObj [(''username'', JStr ''bob''), (''password'', JStr ''secret123'')]\<rparr> \<and>
   single_login (\<lambda>now payload secret expiresIn. Inr ''t'')
      \<lparr>env_JWT_SECRET = None, env_JWT_EXPIRES_IN = None\<rparr> 5
      \<lparr>req_authorization = None,
       req_body = JObj [(''username'', JStr ''demo''), (''password'', JStr ''nope'')]\<rparr>
     = single_login (\<lambda>now payload secret expiresIn. Inr ''t'')
      \<lparr>env_JWT_SECRET = None, env_JWT_EXPIRES_IN = None\<rparr> 0
      \<lparr>req_authorization = None,
       req_body = JObj [(''username'', JStr ''bob''), (''password'', JStr ''secret123'')]\<rparr> \<and>
   rbac_login (\<lambda>now payload secret expiresIn. Inr ''t'')
      \<lparr>env_JWT_SECRET = None, env_JWT_EXPIRES_IN = None\<rparr> 5
      \<lparr>req_authorization = None,
       req_body = JObj [(''username'', JStr ''alice''), (''password'', JStr ''nope'')]\<rparr>
     = rbac_login (\<lambda>now payload secret expiresIn. Inr ''t'')
      \<lparr>env_JWT_SECRET = None, env_JWT_EXPIRES_IN = None\<rparr> 0
      \<lparr>req_authorization = None,
       req_body = JObj [(''username'', JStr ''bob''), (''password'', JStr ''secret123'')]\<rparr>"
proof -
  let ?A = "\<lparr>req_authorization = None,
       req_body = JObj [(''username'', JStr ''bob''), (''password'', JStr ''secret123'')]\<rparr>"
  let ?B = "\<lparr>req_authorization = None,
       req_body = JObj [(''username'', JStr ''demo''), (''password'', JStr ''nope'')]\<rparr>"
  let ?C = "\<lparr>req_authorization = None,
       req_body = JObj [(''username'', JStr ''alice''), (''password'', JStr ''nope'')]\<rparr>"
  have tA: "truthy (get_prop (req_body ?A) ''username'')" "truthy (get_prop (req_body ?A) ''password'')"
    and tB: "truthy (get_prop (req_body ?B) ''username'')" "truthy (get_prop (req_body ?B) ''password'')"
    and tC: "truthy (get_prop (req_body ?C) ''username'')" "truthy (get_prop (req_body ?C) ''password'')"
    by simp_all
  have single: "get_prop (req_body ?A) ''username'' \<noteq> get_prop DEMO_USER ''username'' \<and>
      get_prop (req_body ?B) ''username'' = get_prop DEMO_USER ''username'' \<and>
      get_prop (req_body ?B) ''password'' \<noteq> get_prop DEMO_USER ''password''"
    by (simp add: DEMO_USER_def)
  have rbac: "get_prop (req_body ?A) ''username'' \<notin> set (map (\<lambda>u. get_prop u ''username'') DEMO_USERS) \<and>
      get_prop (req_body ?C) ''username'' \<in> set (map (\<lambda>u. get_prop u ''username'') DEMO_USERS) \<and>
      (get_prop (req_body ?C) ''username'', get_prop (req_body ?C) ''password'')
         \<notin> set (map credentials DEMO_USERS)"
    by (simp add: DEMO_USERS_def credentials_def)
  have rbac': "(get_prop (req_body ?B) ''username'', get_prop (req_body ?B) ''password'')
         \<notin> set (map credentials DEMO_USERS)"
    by (simp add: DEMO_USERS_def credentials_def)
  from failed_logins_indistinguishable [OF tA tB] single
  have s: "single_login (\<lambda>now payload secret expiresIn. Inr ''t'')
      \<lparr>env_JWT_SECRET = None, env_JWT_EXPIRES_IN = None\<rparr> 5 ?B
     = single_login (\<lambda>now payload secret expiresIn. Inr ''t'')
      \<lparr>env_JWT_SECRET = None, env_JWT_EXPIRES_IN = None\<rparr> 0 ?A"
    by blast
  from failed_logins_indistinguishable [OF tA tC] rbac
  have r: "rbac_login (\<lambda>now payload secret expiresIn. Inr ''t'')
      \<lparr>env_JWT_SECRET = None, env_JWT_EXPIRES_IN = None\<rparr> 5 ?C
     = rbac_login (\<lambda>now payload secret expiresIn. Inr ''t'')
      \<lparr>env_JWT_SECRET = None, env_JWT_EXPIRES_IN = None\<rparr> 0 ?A
     \<and> rbac_login (\<lambda>now payload secret expiresIn. Inr ''t'')
      \<lparr>env_JWT_SECRET = None, env_JWT_EXPIRES_IN = None\<rparr> 0 ?A
       = Sent (json_error 401 ''Invalid username or password'')"
    by blast
  have "rbac_login (\<lambda>now payload secret expiresIn. Inr ''t'')
      \<lparr>env_JWT_SECRET = None, env_JWT_EXPIRES_IN = None\<rparr> 5 ?B
       = Sent (json_error 401 ''Invalid username or password'')"
    using tB rbac' by (intro rbac_login_unknown)
  with s r show ?thesis by simp
qed

text \<open>
  The claim as written asks for identical replies whenever both fields are present; a
  password that is present and empty, with the username of a record, is answered 400,
  while a username of no record with a non-empty password is answered 401.
\<close>

theorem present_empty_password_counterexample:
  "JStr ''admin1'' \<in> set (map (\<lambda>u. get_prop u ''username'') DEMO_USERS) \<and>
   (JStr ''admin1'', JStr []) \<notin> set (map credentials DEMO_USERS) \<and>
   JStr ''bob'' \<notin> set (map (\<lambda>u. get_prop u ''username'') DEMO_USERS) \<and>
   sent_status (rbac_login (\<lambda>now payload secret expiresIn. Inr ''t'')
      \<lparr>env_JWT_SECRET = None, env_JWT_EXPIRES_IN = None\<rparr> 0
      \<lparr>req_authorization = None,
       req_body = JObj [(''username'', JStr ''admin1''), (''password'', JStr [])]\<rparr>) = Some 400 \<and>
   sent_status (rbac_login (\<lambda>now payload secret expiresIn. Inr ''t'')
      \<lparr>env_JWT_SECRET = None, env_JWT_EXPIRES_IN = None\<rparr> 0
      \<lparr>req_authorization = None,
       req_body = JObj [(''username'', JStr ''bob''), (''password'', JStr ''x'')]\<rparr>) = Some 401"
  by (simp add: DEMO_USERS_def credentials_def rbac_login_def json_error_def)

text \<open>
  C10. In both servers, a body whose \<open>username\<close> or whose \<open>password\<close> is the empty string
  is answered 400 with the message for missing fields, the very reply an empty body gets;
  the reply carries no token, whatever the credential list and the signing function are.
\<close>

theorem empty_field_is_missing_field:
  assumes "get_prop (req_body req) ''username'' = JStr [] \<or> get_prop (req_body req) ''password'' = JStr []"
  shows
    "rbac_login sign env now req = Sent (json_error 400 ''username and password required in body'') \<and>
     rbac_login sign env now req = rbac_login sign env now (req\<lparr>req_body := JObj []\<rparr>) \<and>
     get_prop (sent_body (rbac_login sign env now req)) ''token'' = JUndefined \<and>
     single_login sign env now req = Sent (json_error 400 ''username and password required'') \<and>
     single_login sign env now req = single_login sign env now (req\<lparr>req_body := JObj []\<rparr>) \<and>
     get_prop (sent_body (single_login sign env now req)) ''token'' = JUndefined"
proof -
  from assms have m: "\<not> truthy (get_prop (req_body req) ''username'') \<or>
      \<not> truthy (get_prop (req_body req) ''password'')"
    by auto
  have e: "\<not> truthy (get_prop (req_body (req\<lparr>req_body := JObj []\<rparr>)) ''username'') \<or>
      \<not> truthy (get_prop (req_body (req\<lparr>req_body := JObj []\<rparr>)) ''password'')"
    by simp
  show ?thesis
    by (simp add: rbac_login_missing [OF m] rbac_login_missing [OF e]
        single_login_missing [OF m] single_login_missing [OF e] json_error_def)
qed

theorem empty_field_is_missing_field_witness:
  "rbac_login (\<lambda>now payload secret expiresIn. Inr ''t'')
      \<lparr>env_JWT_SECRET = None, env_JWT_EXPIRES_IN = None\<rparr> 0
      \<lparr>req_authorization = None,
       req_body = JObj [(''username'', JStr ''admin1''), (''password'', JStr [])]\<rparr>
     = Sent (json_error 400 ''username and password required in body'') \<and>
   single_login (\<lambda>now payload secret expiresIn. Inr ''t'')
      \<lparr>env_JWT_SECRET = None, env_JWT_EXPIRES_IN = None\<rparr> 0
      \<lparr>req_authorization = None,
       req_body = JObj [(''username'', JStr ''admin1''), (''password'', JStr [])]\<rparr>
     = Sent (json_error 400 ''username and password required'')"
proof -
  let ?req = "\<lparr>req_authorization = None,
       req_body = JObj [(''username'', JStr ''admin1''), (''password'', JStr [])]\<rparr>"
  have h: "get_prop (req_body ?req) ''username'' = JStr [] \<or> get_prop (req_body ?req) ''password'' = JStr []"
    by simp
  from empty_field_is_missing_field [OF h] show ?thesis by blast
qed

text \<open>
  C2. In both servers, when the pair of the request is the pair of a credential record, the
  payload \<^verbatim>\<open>POST /login\<close> hands to \<^verbatim>\<open>signToken\<close> has exactly the allow-listed properties, with
  the values of that record (\<open>username\<close>, \<open>role\<close>, \<open>name\<close> in the server with roles;
  \<open>username\<close>, \<open>name\<close>, \<open>email\<close> in the server with one user), and no \<open>password\<close>; the token
  of the reply is the signature of that payload.
\<close>

theorem login_payload_allow_list:
  "(u \<in> set DEMO_USERS \<and>
    (get_prop (req_body req) ''username'', get_prop (req_body req) ''password'') = credentials u \<longrightarrow>
      rbac_login sign env now req =
        (case sign now (rbac_payload u) (JWT_SECRET env) (rbac_JWT_EXPIRES_IN env) of
           Inl e \<Rightarrow> Threw e
         | Inr token \<Rightarrow>
             Sent \<lparr>status = 200,
                   body = JObj [(''token'', JStr token),
                                (''expiresIn'', JStr (rbac_JWT_EXPIRES_IN env)),
                                (''user'', JObj [(''username'', get_prop u ''username''),
                                                 (''role'', get_prop u ''role''),
                                                 (''name'', get_prop u ''name'')])]\<rparr>) \<and>
      keys (rbac_payload u) = [''username'', ''role'', ''name''] \<and>
      ''password'' \<notin> set (keys (rbac_payload u)) \<and>
      get_prop (rbac_payload u) ''username'' = get_prop u ''username'' \<and>
      get_prop (rbac_payload u) ''role'' = get_prop u ''role'' \<and>
      get_prop (rbac_payload u) ''name'' = get_prop u ''name'') \<and>
   ((get_prop (req_body req) ''username'', get_prop (req_body req) ''password'') = credentials DEMO_USER \<longrightarrow>
      single_login sign env now req =
        (case sign now single_payload (JWT_SECRET env) (single_JWT_EXPIRES_IN env) of
           Inl e \<Rightarrow> Threw e
         | Inr token \<Rightarrow>
             Sent \<lparr>status = 200,
                   body = JObj [(''token'', JStr token),
                                (''expiresIn'', JStr (single_JWT_EXPIRES_IN env))]\<rparr>) \<and>
      keys single_payload = [''username'', ''name'', ''email''] \<and>
      ''password'' \<notin> set (keys single_payload) \<and>
      get_prop single_payload ''username'' = get_prop DEMO_USER ''username'' \<and>
      get_prop single_payload ''name'' = get_prop DEMO_USER ''name'' \<and>
      get_prop single_payload ''email'' = get_prop DEMO_USER ''email'')"
proof (intro conjI impI)
  assume "u \<in> set DEMO_USERS \<and>
    (get_prop (req_body req) ''username'', get_prop (req_body req) ''password'') = credentials u"
  then show "rbac_login sign env now req =
        (case sign now (rbac_payload u) (JWT_SECRET env) (rbac_JWT_EXPIRES_IN env) of
           Inl e \<Rightarrow> Threw e
         | Inr token \<Rightarrow>
             Sent \<lparr>status = 200,
                   body = JObj [(''token'', JStr token),
                                (''expiresIn'', JStr (rbac_JWT_EXPIRES_IN env)),
                                (''user'', JObj [(''username'', get_prop u ''username''),
                                                 (''role'', get_prop u ''role''),
                                                 (''name'', get_prop u ''name'')])]\<rparr>)"
    by (intro rbac_login_known) simp_all
next
  assume "(get_prop (req_body req) ''username'', get_prop (req_body req) ''password'') = credentials DEMO_USER"
  then show "single_login sign env now req =
        (case sign now single_payload (JWT_SECRET env) (single_JWT_EXPIRES_IN env) of
           Inl e \<Rightarrow> Threw e
         | Inr token \<Rightarrow>
             Sent \<lparr>status = 200,
                   body = JObj [(''token'', JStr token),
                                (''expiresIn'', JStr (single_JWT_EXPIRES_IN env))]\<rparr>)"
    by (rule single_login_known)
qed (simp_all add: keys_rbac_payload keys_single_payload, simp_all add: rbac_payload_def single_payload_def)

theorem login_payload_allow_list_witness:
  "rbac_login (\<lambda>now payload secret expiresIn.
        case to_string (get_prop payload ''role'') of None \<Rightarrow> Inl ''TypeError'' | Some s \<Rightarrow> Inr s)
      \<lparr>env_JWT_SECRET = None, env_JWT_EXPIRES_IN = Some ''15m''\<rparr> 0
      \<lparr>req_authorization = None,
       req_body = JObj [(''username'', JStr ''mod1''), (''password'', JStr ''modpass'')]\<rparr>
     = Sent \<lparr>status = 200,
             body = JObj [(''token'', JStr ''moderator''), (''expiresIn'', JStr ''15m''),
                          (''user'', JObj [(''username'', JStr ''mod1''), (''role'', JStr ''moderator''),
                                           (''name'', JStr ''Moderator One'')])]\<rparr> \<and>
   single_login (\<lambda>now payload secret expiresIn.
        case to_string (get_prop payload ''email'') of None \<Rightarrow> Inl ''TypeError'' | Some s \<Rightarrow> Inr s)
      \<lparr>env_JWT_SECRET = None, env_JWT_EXPIRES_IN = Some ''15m''\<rparr> 0
      \<lparr>req_authorization = None,
       req_body = JObj [(''username'', JStr ''demo''), (''password'', JStr ''secret123'')]\<rparr>
     = Sent \<lparr>status = 200,
             body = JObj [(''token'', JStr ''demo@example.com''), (''expiresIn'', JStr ''15m'')]\<rparr>"
proof -
  let ?u = "JObj [(''username'', JStr ''mod1''), (''password'', JStr ''modpass''),
            (''role'', JStr ''moderator''), (''name'', JStr ''Moderator One'')]"
  let ?r = "\<lparr>req_authorization = None,
       req_body = JObj [(''username'', JStr ''mod1''), (''password'', JStr ''modpass'')]\<rparr>"
  let ?d = "\<lparr>req_authorization = None,
       req_body = JObj [(''username'', JStr ''demo''), (''password'', JStr ''secret123'')]\<rparr>"
  have r: "?u \<in> set DEMO_USERS \<and>
      (get_prop (req_body ?r) ''username'', get_prop (req_body ?r) ''password'') = credentials ?u"
    by (simp add: DEMO_USERS_def credentials_def)
  have d: "(get_prop (req_body ?d) ''username'', get_prop (req_body ?d) ''password'') = credentials DEMO_USER"
    by (simp add: DEMO_USER_def credentials_def)
  from r login_payload_allow_list [of ?u ?r
      "\<lambda>now payload secret expiresIn.
        case to_string (get_prop payload ''role'') of None \<Rightarrow> Inl ''TypeError'' | Some s \<Rightarrow> Inr s"
      "\<lparr>env_JWT_SECRET = None, env_JWT_EXPIRES_IN = Some ''15m''\<rparr>" 0]
  have a: "rbac_login (\<lambda>now payload secret expiresIn.
        case to_string (get_prop payload ''role'') of None \<Rightarrow> Inl ''TypeError'' | Some s \<Rightarrow> Inr s)
      \<lparr>env_JWT_SECRET = None, env_JWT_EXPIRES_IN = Some ''15m''\<rparr> 0 ?r
     = Sent \<lparr>status = 200,
             body = JObj [(''token'', JStr ''moderator''), (''expiresIn'', JStr ''15m''),
                          (''user'', JObj [(''username'', JStr ''mod1''), (''role'', JStr ''moderator''),
                                           (''name'', JStr ''Moderator One'')])]\<rparr>"
    by (simp add: rbac_payload_def rbac_JWT_EXPIRES_IN_def or_default_def)
  from d login_payload_allow_list [of ?u ?d
      "\<lambda>now payload secret expiresIn.
        case to_string (get_prop payload ''email'') of None \<Rightarrow> Inl ''TypeError'' | Some s \<Rightarrow> Inr s"
      "\<lparr>env_JWT_SECRET = None, env_JWT_EXPIRES_IN = Some ''15m''\<rparr>" 0]
  have b: "single_login (\<lambda>now payload secret expiresIn.
        case to_string (get_prop payload ''email'') of None \<Rightarrow> Inl ''TypeError'' | Some s \<Rightarrow> Inr s)
      \<lparr>env_JWT_SECRET = None, env_JWT_EXPIRES_IN = Some ''15m''\<rparr> 0 ?d
     = Sent \<lparr>status = 200,
             body = JObj [(''token'', JStr ''demo@example.com''), (''expiresIn'', JStr ''15m'')]\<rparr>"
    by (simp add: single_payload_def DEMO_USER_def single_JWT_EXPIRES_IN_def or_default_def)
  from a b show ?thesis by simp
qed

text \<open>
  C4, as the code has it. Every reply of \<^verbatim>\<open>POST /login\<close> with status 200 has, in the server
  with roles, the token, the configured expiry string as \<open>expiresIn\<close> and the user summary
  (\<open>username\<close>, \<open>role\<close>, \<open>name\<close> of a credential record); in the server with one user it has
  the token and the configured expiry string as \<open>expiresIn\<close>, and no user summary.
\<close>

theorem login_reply_shape:
  "((rbac_login sign env now req = Sent r \<and> status r = 200) =
      (\<exists>token u. u \<in> set DEMO_USERS \<and>
         (get_prop (req_body req) ''username'', get_prop (req_body req) ''password'') = credentials u \<and>
         sign now (rbac_payload u) (JWT_SECRET env) (rbac_JWT_EXPIRES_IN env) = Inr token \<and>
         r = \<lparr>status = 200,
              body = JObj [(''token'', JStr token),
                           (''expiresIn'', JStr (rbac_JWT_EXPIRES_IN env)),
                           (''user'', JObj [(''username'', get_prop u ''username''),
                                            (''role'', get_prop u ''role''),
                                            (''name'', get_prop u ''name'')])]\<rparr>)) \<and>
   ((single_login sign env now req = Sent r \<and> status r = 200) =
      (\<exists>token.
         (get_prop (req_body req) ''username'', get_prop (req_body req) ''password'')
           = credentials DEMO_USER \<and>
         sign now single_payload (JWT_SECRET env) (single_JWT_EXPIRES_IN env) = Inr token \<and>
         r = \<lparr>status = 200,
              body = JObj [(''token'', JStr token),
                           (''expiresIn'', JStr (single_JWT_EXPIRES_IN env))]\<rparr>)) \<and>
   (single_login sign env now req = Sent r \<and> status r = 200 \<longrightarrow>
      get_prop (body r) ''user'' = JUndefined)"
  (is "(?L1 = ?R1) \<and> (?L2 = ?R2) \<and> (?L2 \<longrightarrow> ?C)")
proof -
  have rbac: "?L1 = ?R1"
  proof
    assume ?L1
    then show ?R1 using rbac_login_200 [of sign env now req r] by blast
  next
    assume ?R1
    then obtain token u where m: "u \<in> set DEMO_USERS"
      and c: "(get_prop (req_body req) ''username'', get_prop (req_body req) ''password'') = credentials u"
      and s: "sign now (rbac_payload u) (JWT_SECRET env) (rbac_JWT_EXPIRES_IN env) = Inr token"
      and r: "r = \<lparr>status = 200,
                body = JObj [(''token'', JStr token),
                             (''expiresIn'', JStr (rbac_JWT_EXPIRES_IN env)),
                             (''user'', JObj [(''username'', get_prop u ''username''),
                                              (''role'', get_prop u ''role''),
                                              (''name'', get_prop u ''name'')])]\<rparr>"
      by blast
    from rbac_login_known [OF m c, of sign env now] s r show ?L1 by simp
  qed
  have single: "?L2 = ?R2"
  proof
    assume ?L2
    then show ?R2 using single_login_200 [of sign env now req r] by blast
  next
    assume ?R2
    then obtain token where
      c: "(get_prop (req_body req) ''username'', get_prop (req_body req) ''password'')
             = credentials DEMO_USER"
      and s: "sign now single_payload (JWT_SECRET env) (single_JWT_EXPIRES_IN env) = Inr token"
      and r: "r = \<lparr>status = 200,
                body = JObj [(''token'', JStr token),
                             (''expiresIn'', JStr (single_JWT_EXPIRES_IN env))]\<rparr>"
      by blast
    from single_login_known [OF c, of sign env now] s r show ?L2 by simp
  qed
  have none: "?L2 \<longrightarrow> ?C"
  proof
    assume ?L2
    with single obtain token where "r = \<lparr>status = 200,
        body = JObj [(''token'', JStr token), (''expiresIn'', JStr (single_JWT_EXPIRES_IN env))]\<rparr>"
      by blast
    then show ?C by simp
  qed
  from rbac single none show ?thesis by (intro conjI)
qed

theorem login_reply_shape_witness:
  "rbac_login
      (\<lambda>now payload secret expiresIn.
        case to_string (get_prop payload ''username'') of None \<Rightarrow> Inl ''TypeError'' | Some s \<Rightarrow> Inr s)
      \<lparr>env_JWT_SECRET = None, env_JWT_EXPIRES_IN = None\<rparr> 0
      \<lparr>req_authorization = None,
       req_body = JObj [(''username'', JStr ''alice''), (''password'', JStr ''alicepw'')]\<rparr>
     = Sent \<lparr>status = 200,
             body = JObj [(''token'', JStr ''alice''), (''expiresIn'', JStr ''2h''),
                          (''user'', JObj [(''username'', JStr ''alice''), (''role'', JStr ''user''),
                                           (''name'', JStr ''Alice'')])]\<rparr> \<and>
   single_login
      (\<lambda>now payload secret expiresIn.
        case to_string (get_prop payload ''username'') of None \<Rightarrow> Inl ''TypeError'' | Some s \<Rightarrow> Inr s)
      \<lparr>env_JWT_SECRET = None, env_JWT_EXPIRES_IN = None\<rparr> 0
      \<lparr>req_authorization = None,
       req_body = JObj [(''username'', JStr ''demo''), (''password'', JStr ''secret123'')]\<rparr>
     = Sent \<lparr>status = 200,
             body = JObj [(''token'', JStr ''demo''), (''expiresIn'', JStr ''1h'')]\<rparr> \<and>
   get_prop (body \<lparr>status = 200,
                  body = JObj [(''token'', JStr ''demo''), (''expiresIn'', JStr ''1h'')]\<rparr>) ''user''
     = JUndefined"
proof -
  let ?sign = "\<lambda>(now::nat) (payload::jsval) (secret::string) (expiresIn::string).
      case to_string (get_prop payload ''username'') of
        None \<Rightarrow> (Inl ''TypeError'' :: string + string) | Some s \<Rightarrow> Inr s"
  let ?env = "\<lparr>env_JWT_SECRET = None, env_JWT_EXPIRES_IN = None\<rparr>"
  let ?d = "\<lparr>req_authorization = None,
       req_body = JObj [(''username'', JStr ''demo''), (''password'', JStr ''secret123'')]\<rparr>"
  let ?a = "\<lparr>req_authorization = None,
       req_body = JObj [(''username'', JStr ''alice''), (''password'', JStr ''alicepw'')]\<rparr>"
  let ?u = "JObj [(''username'', JStr ''alice''), (''password'', JStr ''alicepw''),
            (''role'', JStr ''user''), (''name'', JStr ''Alice'')]"
  let ?rd = "\<lparr>status = 200,
         body = JObj [(''token'', JStr ''demo''), (''expiresIn'', JStr ''1h'')]\<rparr>"
  let ?ra = "\<lparr>status = 200,
            body = JObj [(''token'', JStr ''alice''), (''expiresIn'', JStr ''2h''),
                         (''user'', JObj [(''username'', JStr ''alice''), (''role'', JStr ''user''),
                                          (''name'', JStr ''Alice'')])]\<rparr>"
  have a: "?u \<in> set DEMO_USERS \<and>
         (get_prop (req_body ?a) ''username'', get_prop (req_body ?a) ''password'') = credentials ?u \<and>
         ?sign 0 (rbac_payload ?u) (JWT_SECRET ?env) (rbac_JWT_EXPIRES_IN ?env) = Inr ''alice'' \<and>
         ?ra = \<lparr>status = 200,
              body = JObj [(''token'', JStr ''alice''),
                           (''expiresIn'', JStr (rbac_JWT_EXPIRES_IN ?env)),
                           (''user'', JObj [(''username'', get_prop ?u ''username''),
                                            (''role'', get_prop ?u ''role''),
                                            (''name'', get_prop ?u ''name'')])]\<rparr>"
    by (simp add: DEMO_USERS_def credentials_def rbac_payload_def rbac_JWT_EXPIRES_IN_def
        or_default_def)
  have d: "(get_prop (req_body ?d) ''username'', get_prop (req_body ?d) ''password'')
           = credentials DEMO_USER \<and>
         ?sign 0 single_payload (JWT_SECRET ?env) (single_JWT_EXPIRES_IN ?env) = Inr ''demo'' \<and>
         ?rd = \<lparr>status = 200,
              body = JObj [(''token'', JStr ''demo''),
                           (''expiresIn'', JStr (single_JWT_EXPIRES_IN ?env))]\<rparr>"
    by (simp add: DEMO_USER_def credentials_def single_payload_def single_JWT_EXPIRES_IN_def
        or_default_def)
  note t1 = login_reply_shape [of ?sign ?env 0 ?a ?ra]
  note t2 = login_reply_shape [of ?sign ?env 0 ?d ?rd]
  from a t1 have 1: "rbac_login ?sign ?env 0 ?a = Sent ?ra" by blast
  from d t2 have 2: "single_login ?sign ?env 0 ?d = Sent ?rd \<and> status ?rd = 200" by blast
  with t2 have 3: "get_prop (body ?rd) ''user'' = JUndefined" by blast
  from 1 2 3 show ?thesis by blast
qed

text \<open>
  The claim as written asks for a user summary in both servers; the reply of the server
  with one user has the two properties \<open>token\<close> and \<open>expiresIn\<close> only.
\<close>

theorem single_login_no_user_counterexample:
  "sent_status (single_login (\<lambda>now payload secret expiresIn. Inr ''t'')
      \<lparr>env_JWT_SECRET = None, env_JWT_EXPIRES_IN = None\<rparr> 0
      \<lparr>req_authorization = None,
       req_body = JObj [(''username'', JStr ''demo''), (''password'', JStr ''secret123'')]\<rparr>) = Some 200 \<and>
   keys (sent_body (single_login (\<lambda>now payload secret expiresIn. Inr ''t'')
      \<lparr>env_JWT_SECRET = None, env_JWT_EXPIRES_IN = None\<rparr> 0
      \<lparr>req_authorization = None,
       req_body = JObj [(''username'', JStr ''demo''), (''password'', JStr ''secret123'')]\<rparr>))
     = [''token'', ''expiresIn'']"
  by (simp add: single_login_def single_signToken_def DEMO_USER_def Let_def)

section \<open>Issued tokens: properties\<close>

text \<open>
  C8. With the token library as the spec describes it: the token \<^verbatim>\<open>POST /login\<close> issues at
  time \<open>t0\<close> with a lifetime of \<open>d\<close> seconds is accepted by \<^verbatim>\<open>verifyJwt\<close> at every time before
  \<open>t0 + d\<close>, in both servers, for any request body and for a server whose environment
  differs from the issuing one in anything but the signing secret. And for any library,
  the outcome of \<^verbatim>\<open>verifyJwt\<close> is the same for two requests with the same header at the same
  time under the same secret: the credential list is not among what it reads, and no
  handler changes any state.
\<close>

theorem issued_token_accepted_until_expiry:
  assumes "dec (enc t) = Some t" and "CHR '' '' \<notin> set (enc t)"
    and "JWT_SECRET env' = JWT_SECRET env"
    and "now < t0 + d"
  shows
    "(u \<in> set DEMO_USERS \<and>
      (get_prop (req_body req) ''username'', get_prop (req_body req) ''password'') = credentials u \<and>
      span (rbac_JWT_EXPIRES_IN env) = Some d \<and>
      t = \<lparr>tok_claims = stamp (rbac_payload u) t0 (t0 + d), tok_key = JWT_SECRET env, tok_exp = t0 + d\<rparr> \<longrightarrow>
        rbac_login (model_sign span enc) env t0 req =
          Sent \<lparr>status = 200,
                body = JObj [(''token'', JStr (enc t)),
                             (''expiresIn'', JStr (rbac_JWT_EXPIRES_IN env)),
                             (''user'', JObj [(''username'', get_prop u ''username''),
                                              (''role'', get_prop u ''role''),
                                              (''name'', get_prop u ''name'')])]\<rparr> \<and>
        verifyJwt (model_verify dec) env' now
          \<lparr>req_authorization = Some (''Bearer '' @ enc t), req_body = b\<rparr> = Next (tok_claims t)) \<and>
     ((get_prop (req_body req) ''username'', get_prop (req_body req) ''password'') = credentials DEMO_USER \<and>
      span (single_JWT_EXPIRES_IN env) = Some d \<and>
      t = \<lparr>tok_claims = stamp single_payload t0 (t0 + d), tok_key = JWT_SECRET env, tok_exp = t0 + d\<rparr> \<longrightarrow>
        single_login (model_sign span enc) env t0 req =
          Sent \<lparr>status = 200,
                body = JObj [(''token'', JStr (enc t)),
                             (''expiresIn'', JStr (single_JWT_EXPIRES_IN env))]\<rparr> \<and>
        verifyJwt (model_verify dec) env' now
          \<lparr>req_authorization = Some (''Bearer '' @ enc t), req_body = b\<rparr> = Next (tok_claims t)) \<and>
     verifyJwt verify env now \<lparr>req_authorization = h, req_body = b\<rparr>
       = verifyJwt verify env' now \<lparr>req_authorization = h, req_body = b'\<rparr>"
proof (intro conjI impI)
  assume a: "u \<in> set DEMO_USERS \<and>
      (get_prop (req_body req) ''username'', get_prop (req_body req) ''password'') = credentials u \<and>
      span (rbac_JWT_EXPIRES_IN env) = Some d \<and>
      t = \<lparr>tok_claims = stamp (rbac_payload u) t0 (t0 + d), tok_key = JWT_SECRET env, tok_exp = t0 + d\<rparr>"
  then have "rbac_login (model_sign span enc) env t0 req =
     (case model_sign span enc t0 (rbac_payload u) (JWT_SECRET env) (rbac_JWT_EXPIRES_IN env) of
        Inl e \<Rightarrow> Threw e
      | Inr token \<Rightarrow>
          Sent \<lparr>status = 200,
                body = JObj [(''token'', JStr token),
                             (''expiresIn'', JStr (rbac_JWT_EXPIRES_IN env)),
                             (''user'', JObj [(''username'', get_prop u ''username''),
                                              (''role'', get_prop u ''role''),
                                              (''name'', get_prop u ''name'')])]\<rparr>)"
    by (intro rbac_login_known) simp_all
  with a show "rbac_login (model_sign span enc) env t0 req =
          Sent \<lparr>status = 200,
                body = JObj [(''token'', JStr (enc t)),
                             (''expiresIn'', JStr (rbac_JWT_EXPIRES_IN env)),
                             (''user'', JObj [(''username'', get_prop u ''username''),
                                              (''role'', get_prop u ''role''),
                                              (''name'', get_prop u ''name'')])]\<rparr>"
    by (simp add: model_sign_def)
  from a have teq: "t = \<lparr>tok_claims = stamp (rbac_payload u) t0 (t0 + d), tok_key = JWT_SECRET env,
      tok_exp = t0 + d\<rparr>"
    by (elim conjE)
  have "tok_key t = JWT_SECRET env'" "now < tok_exp t" "\<not> nullish (tok_claims t)"
    unfolding teq using assms(3,4) by (simp_all add: rbac_payload_def)
  with assms(1,2) show "verifyJwt (model_verify dec) env' now
          \<lparr>req_authorization = Some (''Bearer '' @ enc t), req_body = b\<rparr> = Next (tok_claims t)"
    by (intro model_token_accepted)
next
  assume a: "(get_prop (req_body req) ''username'', get_prop (req_body req) ''password'') = credentials DEMO_USER \<and>
      span (single_JWT_EXPIRES_IN env) = Some d \<and>
      t = \<lparr>tok_claims = stamp single_payload t0 (t0 + d), tok_key = JWT_SECRET env, tok_exp = t0 + d\<rparr>"
  then have "single_login (model_sign span enc) env t0 req =
     (case model_sign span enc t0 single_payload (JWT_SECRET env) (single_JWT_EXPIRES_IN env) of
        Inl e \<Rightarrow> Threw e
      | Inr token \<Rightarrow>
          Sent \<lparr>status = 200,
                body = JObj [(''token'', JStr token),
                             (''expiresIn'', JStr (single_JWT_EXPIRES_IN env))]\<rparr>)"
    by (intro single_login_known) simp
  with a show "single_login (model_sign span enc) env t0 req =
          Sent \<lparr>status = 200,
                body = JObj [(''token'', JStr (enc t)),
                             (''expiresIn'', JStr (single_JWT_EXPIRES_IN env))]\<rparr>"
    by (simp add: model_sign_def)
  from a have teq: "t = \<lparr>tok_claims = stamp single_payload t0 (t0 + d), tok_key = JWT_SECRET env,
      tok_exp = t0 + d\<rparr>"
    by (elim conjE)
  have "tok_key t = JWT_SECRET env'" "now < tok_exp t" "\<not> nullish (tok_claims t)"
    unfolding teq using assms(3,4) by (simp_all add: single_payload_def)
  with assms(1,2) show "verifyJwt (model_verify dec) env' now
          \<lparr>req_authorization = Some (''Bearer '' @ enc t), req_body = b\<rparr> = Next (tok_claims t)"
    by (intro model_token_accepted)
next
  show "verifyJwt verify env now \<lparr>req_authorization = h, req_body = b\<rparr>
       = verifyJwt verify env' now \<lparr>req_authorization = h, req_body = b'\<rparr>"
    by (rule verifyJwt_secret_only [OF assms(3)])
qed


theorem issued_token_accepted_until_expiry_witness:
  "rbac_login
      (model_sign (\<lambda>s. if s = ''2h'' then Some 7200 else None) (\<lambda>c. ''h.p.s''))
      \<lparr>env_JWT_SECRET = None, env_JWT_EXPIRES_IN = None\<rparr> 1000
      \<lparr>req_authorization = None,
       req_body = JObj [(''username'', JStr ''mod1''), (''password'', JStr ''modpass'')]\<rparr>
     = Sent \<lparr>status = 200,
             body = JObj [(''token'', JStr ''h.p.s''), (''expiresIn'', JStr ''2h''),
                          (''user'', JObj [(''username'', JStr ''mod1''), (''role'', JStr ''moderator''),
                                           (''name'', JStr ''Moderator One'')])]\<rparr> \<and>
   verifyJwt
      (model_verify (\<lambda>s. if s = ''h.p.s''
         then Some \<lparr>tok_claims = JObj [(''username'', JStr ''mod1''), (''role'', JStr ''moderator''),
                                       (''name'', JStr ''Moderator One''),
                                       (''iat'', JNum ''1000''), (''exp'', JNum ''8200'')],
                    tok_key = ''please_change_this_secret_in_prod'', tok_exp = 8200\<rparr>
         else None))
      \<lparr>env_JWT_SECRET = None, env_JWT_EXPIRES_IN = Some ''5m''\<rparr> 8199
      \<lparr>req_authorization = Some ''Bearer h.p.s'', req_body = JUndefined\<rparr>
     = Next (JObj [(''username'', JStr ''mod1''), (''role'', JStr ''moderator''),
                   (''name'', JStr ''Moderator One''),
                   (''iat'', JNum ''1000''), (''exp'', JNum ''8200'')])"
proof -
  let ?span = "\<lambda>s::string. if s = ''2h'' then Some (7200::nat) else None"
  let ?t = "\<lparr>tok_claims = JObj [(''username'', JStr ''mod1''), (''role'', JStr ''moderator''),
                                (''name'', JStr ''Moderator One''),
                                (''iat'', JNum ''1000''), (''exp'', JNum ''8200'')],
             tok_key = ''please_change_this_secret_in_prod'', tok_exp = 8200\<rparr>"
  let ?enc = "\<lambda>c::token_content. ''h.p.s''"
  let ?dec = "\<lambda>s::string. if s = ''h.p.s'' then Some ?t else None"
  let ?env = "\<lparr>env_JWT_SECRET = None, env_JWT_EXPIRES_IN = None\<rparr>"
  let ?env' = "\<lparr>env_JWT_SECRET = None, env_JWT_EXPIRES_IN = Some ''5m''\<rparr>"
  let ?u = "JObj [(''username'', JStr ''mod1''), (''password'', JStr ''modpass''),
            (''role'', JStr ''moderator''), (''name'', JStr ''Moderator One'')]"
  let ?req = "\<lparr>req_authorization = None,
       req_body = JObj [(''username'', JStr ''mod1''), (''password'', JStr ''modpass'')]\<rparr>"
  have c: "?dec (?enc ?t) = Some ?t" by simp
  have n: "CHR '' '' \<notin> set (?enc ?t)" by simp
  have k: "JWT_SECRET ?env' = JWT_SECRET ?env" by (simp add: JWT_SECRET_def)
  have b: "(8199::nat) < 1000 + 7200" by simp
  have p: "?u \<in> set DEMO_USERS \<and>
      (get_prop (req_body ?req) ''username'', get_prop (req_body ?req) ''password'') = credentials ?u \<and>
      ?span (rbac_JWT_EXPIRES_IN ?env) = Some 7200 \<and>
      ?t = \<lparr>tok_claims = stamp (rbac_payload ?u) 1000 (1000 + 7200), tok_key = JWT_SECRET ?env,
            tok_exp = 1000 + 7200\<rparr>"
    by (simp add: DEMO_USERS_def credentials_def rbac_JWT_EXPIRES_IN_def or_default_def
        rbac_payload_def JWT_SECRET_def)
  from issued_token_accepted_until_expiry [of ?dec ?enc ?t ?env' ?env 8199 1000 7200 ?u ?req ?span
      JUndefined, OF c n k b]
  have "?u \<in> set DEMO_USERS \<and>
      (get_prop (req_body ?req) ''username'', get_prop (req_body ?req) ''password'') = credentials ?u \<and>
      ?span (rbac_JWT_EXPIRES_IN ?env) = Some 7200 \<and>
      ?t = \<lparr>tok_claims = stamp (rbac_payload ?u) 1000 (1000 + 7200), tok_key = JWT_SECRET ?env,
            tok_exp = 1000 + 7200\<rparr> \<longrightarrow>
        rbac_login (model_sign ?span ?enc) ?env 1000 ?req =
          Sent \<lparr>status = 200,
                body = JObj [(''token'', JStr (?enc ?t)),
                             (''expiresIn'', JStr (rbac_JWT_EXPIRES_IN ?env)),
                             (''user'', JObj [(''username'', get_prop ?u ''username''),
                                              (''role'', get_prop ?u ''role''),
                                              (''name'', get_prop ?u ''name'')])]\<rparr> \<and>
        verifyJwt (model_verify ?dec) ?env' 8199
          \<lparr>req_authorization = Some (''Bearer '' @ ?enc ?t), req_body = JUndefined\<rparr> = Next (tok_claims ?t)"
    by (rule conjunct1)
  from this [rule_format, OF p] show ?thesis
    by (simp add: rbac_JWT_EXPIRES_IN_def or_default_def)
qed

end
